theory Spec2Isabelle
  imports Main "HOL-Library.Sublist"
begin

section \<open>Telegram to Discord relay: the data\<close>

text \<open>
  The development embeds \<^verbatim>\<open>src/lib/telegram2discord/setup.js\<close>: the wrapper
  \<^verbatim>\<open>createMessageHandler\<close> that every Telegram update passes through, the file sender
  \<^verbatim>\<open>makeFileSender\<close>, \<^verbatim>\<open>makeNameObject\<close> and the ten handlers registered by
  \<^verbatim>\<open>setup\<close>.

  JavaScript strings are modelled as \<^typ>\<open>string\<close>, one element per unit of the
  string. A property that may be \<^verbatim>\<open>undefined\<close> is an \<^typ>\<open>'a option\<close>, and reading a
  property of \<^verbatim>\<open>undefined\<close> is the error \<open>TypeError\<close>. An exception and a rejected
  promise are values of \<open>error\<close>; a computation returns \<open>Inl\<close> of the error it ends
  with. \<open>ApiError\<close> stands for whatever a client of Telegram or Discord rejects with,
  \<open>NoCorrespondence\<close> for the failure of a lookup in the message map.
\<close>

datatype error =
    TypeError
  | NoCorrespondence
  | ApiError string

type_synonym 'a result = "error + 'a"

record user =
  first_name :: string
  last_name :: "string option"
  username :: "string option"

text \<open>A Telegram \<^verbatim>\<open>PhotoSize\<close> is reduced to its \<^verbatim>\<open>file_id\<close>, the one field read.\<close>

record tg_sticker =
  thumb :: "string option"
  emoji :: "string option"

record tg_document =
  doc_file_id :: string
  file_name :: "string option"
  doc_mime_type :: "string option"

record tg_voice =
  voice_file_id :: string
  voice_mime_type :: "string option"

record tg_audio =
  audio_file_id :: string
  title :: "string option"
  audio_mime_type :: "string option"

record tg_video =
  video_file_id :: string
  video_mime_type :: "string option"

record message =
  message_id :: nat
  chat_id :: int
  msg_text :: "string option"
  caption :: "string option"
  photo :: "string list option"
  sticker :: "tg_sticker option"
  document :: "tg_document option"
  voice :: "tg_voice option"
  audio :: "tg_audio option"
  video :: "tg_video option"
  new_chat_members :: "user list option"
  left_chat_member :: "user option"

text \<open>The Telegraf context, with the three properties the wrapper reads.\<close>

record ctx =
  ctx_message :: "message option"
  channel_post :: "message option"
  editedMessage :: "message option"

text \<open>
  Modelled from the spec: the class \<^verbatim>\<open>Bridge\<close> (\<^verbatim>\<open>../bridgestuff/Bridge\<close>) is not part
  of the sources. A bridge has the fields the handlers read (\<^verbatim>\<open>name\<close>,
  \<^verbatim>\<open>direction\<close>, \<^verbatim>\<open>telegram.relayJoinMessages\<close>, \<^verbatim>\<open>telegram.relayLeaveMessages\<close>,
  \<^verbatim>\<open>discord.channelId\<close>) and the third flag of the spec's data model,
  \<open>bridge_sendEmojiWithStickers\<close>, which no handler reads. The three directions are the
  spec's: bidirectional, source-to-destination-only, destination-to-source-only.
\<close>

datatype direction =
    DIRECTION_BOTH
  | DIRECTION_TELEGRAM_TO_DISCORD
  | DIRECTION_DISCORD_TO_TELEGRAM

record bridge =
  name :: string
  direction :: direction
  relayJoinMessages :: bool
  relayLeaveMessages :: bool
  bridge_sendEmojiWithStickers :: bool
  channelId :: string

text \<open>What \<^verbatim>\<open>messageConverter\<close> returns: the sender label and the composed text.\<close>

record messageObj =
  msg_from :: string
  composed :: string

subsection \<open>The outside world\<close>

text \<open>
  Every call on the Telegram client and on the Discord client is recorded, in the order
  it is issued, with the error it ended with (\<open>None\<close> when it succeeded). An attachment is
  the download link its stream reads from, and the file name given to Discord.
\<close>

datatype call =
    TgSendMessage int string "string option"
  | TgGetFile string
  | TgGetFileLink string
  | DcSend string string "(string \<times> string) option"
  | DcFetchMessage string string
  | DcEdit string string string

type_synonym trace = "(call \<times> error option) list"

datatype log_arg =
    LogErr error
  | LogText "string option"
  | LogMessage message

type_synonym log_entry = "string \<times> log_arg list"

text \<open>
  The environment holds what the source takes from other modules and from the network:
  \<^verbatim>\<open>messageConverter\<close>, \<^verbatim>\<open>mime.getExtension\<close> (\<open>None\<close> is its \<^verbatim>\<open>null\<close>),
  \<^verbatim>\<open>settings.telegram.sendEmojiWithStickers\<close>, \<^verbatim>\<open>bridgeMap.fromTelegramChatId\<close>, the
  promise \<^verbatim>\<open>dcBot.ready\<close> (\<open>Some err\<close> when it rejects; a promise that never settles
  is not modelled), the channels \<^verbatim>\<open>dcBot.channels\<close> knows, and the outcome of every
  network call, which may depend on all calls made before it and on their outcomes.
  \<open>download_result\<close> is the fate of a download started with \<^verbatim>\<open>request\<close> on a link:
  \<open>Some err\<close> when the request ends with the error \<open>err\<close>.
\<close>

record env =
  messageConverter :: "message \<Rightarrow> bridge \<Rightarrow> messageObj"
  getExtension :: "string option \<Rightarrow> string option"
  sendEmojiWithStickers :: bool
  fromTelegramChatId :: "int \<Rightarrow> bridge option"
  dc_ready :: "error option"
  dc_channels :: "string \<Rightarrow> bool"
  dc_send_result :: "trace \<Rightarrow> call \<Rightarrow> string result"
  dc_fetch_result :: "trace \<Rightarrow> call \<Rightarrow> error option"
  dc_edit_result :: "trace \<Rightarrow> call \<Rightarrow> error option"
  tg_getFile_result :: "trace \<Rightarrow> call \<Rightarrow> (string option) result"
  tg_getFileLink_result :: "trace \<Rightarrow> call \<Rightarrow> string result"
  tg_sendMessage_result :: "trace \<Rightarrow> call \<Rightarrow> error option"
  download_result :: "trace \<Rightarrow> string \<Rightarrow> error option"

text \<open>
  The state the handlers change: the trace of calls, the lines written with
  \<^verbatim>\<open>Application.logger.error\<close>, the message map in the direction
  \<^verbatim>\<open>MessageMap.TELEGRAM_TO_DISCORD\<close>, and \<^verbatim>\<open>tgBot.telegram.me\<close>. \<open>uncaught\<close> holds the
  errors of download streams that nobody listens to: each is an uncaught exception of
  the process, outside every \<^verbatim>\<open>try\<close>.
\<close>

record world =
  calls :: trace
  logged :: "log_entry list"
  messageMap :: "nat \<rightharpoonup> string"
  me :: "user option"
  uncaught :: "error list"

type_synonym 'a comp = "world \<Rightarrow> 'a result \<times> world"

subsection \<open>Sequencing, exceptions and try/catch\<close>

definition ok :: "'a \<Rightarrow> 'a comp" where
  "ok x w = (Inr x, w)"

definition throw :: "error \<Rightarrow> 'a comp" where
  "throw err w = (Inl err, w)"

definition await :: "'a comp \<Rightarrow> ('a \<Rightarrow> 'b comp) \<Rightarrow> 'b comp" where
  "await m k w = (case m w of (Inl err, w') \<Rightarrow> (Inl err, w') | (Inr x, w') \<Rightarrow> k x w')"

definition try_catch :: "'a comp \<Rightarrow> (error \<Rightarrow> world \<Rightarrow> world) \<Rightarrow> unit comp" where
  "try_catch body handler w =
     (case body w of (Inr x, w') \<Rightarrow> (Inr (), w') | (Inl err, w') \<Rightarrow> (Inr (), handler err w'))"

definition logger_error :: "string \<Rightarrow> log_arg list \<Rightarrow> world \<Rightarrow> world" where
  "logger_error line args w = w\<lparr>logged := logged w @ [(line, args)]\<rparr>"

definition failure_of :: "'a result \<Rightarrow> error option" where
  "failure_of r = (case r of Inl err \<Rightarrow> Some err | Inr x \<Rightarrow> None)"

definition unit_result :: "error option \<Rightarrow> unit result" where
  "unit_result r = (case r of Some err \<Rightarrow> Inl err | None \<Rightarrow> Inr ())"

definition record_call :: "call \<Rightarrow> error option \<Rightarrow> world \<Rightarrow> world" where
  "record_call c r w = w\<lparr>calls := calls w @ [(c, r)]\<rparr>"

subsection \<open>The clients' operations\<close>

definition dc_ready_wait :: "env \<Rightarrow> unit comp" where
  "dc_ready_wait env w = (unit_result (dc_ready env), w)"

definition channels_get :: "env \<Rightarrow> string \<Rightarrow> string option" where
  "channels_get env cid = (if dc_channels env cid then Some cid else None)"

definition dc_send :: "env \<Rightarrow> string \<Rightarrow> string \<Rightarrow> (string \<times> string) option \<Rightarrow> string comp" where
  "dc_send env ch txt att w =
     (let c = DcSend ch txt att; r = dc_send_result env (calls w) c
      in (r, record_call c (failure_of r) w))"

definition dc_fetchMessage :: "env \<Rightarrow> string \<Rightarrow> string \<Rightarrow> unit comp" where
  "dc_fetchMessage env ch mid w =
     (let c = DcFetchMessage ch mid; r = dc_fetch_result env (calls w) c
      in (unit_result r, record_call c r w))"

definition dc_edit :: "env \<Rightarrow> string \<Rightarrow> string \<Rightarrow> string \<Rightarrow> unit comp" where
  "dc_edit env ch mid txt w =
     (let c = DcEdit ch mid txt; r = dc_edit_result env (calls w) c
      in (unit_result r, record_call c r w))"

definition tg_getFile :: "env \<Rightarrow> string \<Rightarrow> (string option) comp" where
  "tg_getFile env fileId w =
     (let c = TgGetFile fileId; r = tg_getFile_result env (calls w) c
      in (r, record_call c (failure_of r) w))"

definition tg_getFileLink :: "env \<Rightarrow> string \<Rightarrow> string comp" where
  "tg_getFileLink env fileId w =
     (let c = TgGetFileLink fileId; r = tg_getFileLink_result env (calls w) c
      in (r, record_call c (failure_of r) w))"

definition tg_sendMessage :: "env \<Rightarrow> int \<Rightarrow> string \<Rightarrow> string option \<Rightarrow> unit comp" where
  "tg_sendMessage env chat txt parse_mode w =
     (let c = TgSendMessage chat txt parse_mode; r = tg_sendMessage_result env (calls w) c
      in (unit_result r, record_call c r w))"

text \<open>
  Modelled from the spec: the class \<^verbatim>\<open>MessageMap\<close> (\<^verbatim>\<open>../MessageMap\<close>) is not part of
  the sources. The spec's correspondence store keeps at most one destination id per source
  id, the last write wins, and a lookup of a source id with no entry is a failure.
\<close>

definition messageMap_insert :: "nat \<Rightarrow> string \<Rightarrow> unit comp" where
  "messageMap_insert fromId toId w = (Inr (), w\<lparr>messageMap := (messageMap w)(fromId \<mapsto> toId)\<rparr>)"

definition getCorresponding :: "nat \<Rightarrow> string comp" where
  "getCorresponding fromId w =
     (case messageMap w fromId of None \<Rightarrow> (Inl NoCorrespondence, w) | Some toId \<Rightarrow> (Inr toId, w))"

subsection \<open>JavaScript's strings\<close>

text \<open>String concatenation and template literals print \<^verbatim>\<open>undefined\<close> and \<^verbatim>\<open>null\<close>.\<close>

definition js_undefined :: "string option \<Rightarrow> string" where
  "js_undefined v = (case v of None \<Rightarrow> ''undefined'' | Some s \<Rightarrow> s)"

definition js_null :: "string option \<Rightarrow> string" where
  "js_null v = (case v of None \<Rightarrow> ''null'' | Some s \<Rightarrow> s)"

definition digit_char :: "nat \<Rightarrow> char" where
  "digit_char d = char_of (48 + d)"

fun string_of_nat :: "nat \<Rightarrow> string" where
  "string_of_nat n = (if n < 10 then [digit_char n] else string_of_nat (n div 10) @ [digit_char (n mod 10)])"

declare string_of_nat.simps [simp del]

definition string_of_int :: "int \<Rightarrow> string" where
  "string_of_int i = (if i < 0 then CHR ''-'' # string_of_nat (nat (- i)) else string_of_nat (nat i))"

text \<open>\<^verbatim>\<open>toLowerCase\<close>, on the letters of ASCII.\<close>

definition lower_char :: "char \<Rightarrow> char" where
  "lower_char c = (let n = (of_char c :: nat) in if 65 \<le> n \<and> n \<le> 90 then char_of (n + 32) else c)"

definition toLowerCase :: "string \<Rightarrow> string" where
  "toLowerCase s = map lower_char s"

text \<open>\<^verbatim>\<open>s.split(".")\<close>: the pieces between the dots, at least one piece.\<close>

fun split_dot :: "string \<Rightarrow> string list" where
  "split_dot [] = [[]]"
| "split_dot (c # cs) =
     (if c = CHR ''.'' then [] # split_dot cs
      else (case split_dot cs of [] \<Rightarrow> [[c]] | p # ps \<Rightarrow> (c # p) # ps))"

text \<open>
  \<^verbatim>\<open>s.match(/[\s\S]{1,2000}/g)\<close>: the matches are taken greedily from the left, each of
  up to 2000 units, and the result is \<^verbatim>\<open>null\<close> when there is none.
\<close>

function chunks_of :: "nat \<Rightarrow> 'a list \<Rightarrow> 'a list list" where
  "chunks_of n xs = (if n = 0 \<or> xs = [] then [] else take n xs # chunks_of n (drop n xs))"
  by pat_completeness auto
termination
  by (relation "measure (\<lambda>(n, xs). length xs)") auto

declare chunks_of.simps [simp del]

definition match_chunks :: "string \<Rightarrow> string list option" where
  "match_chunks s = (if s = [] then None else Some (chunks_of 2000 s))"

section \<open>The handlers\<close>

subsection \<open>Text\<close>

fun send_chunks :: "env \<Rightarrow> string option \<Rightarrow> string list \<Rightarrow> string option \<Rightarrow> (string option) comp" where
  "send_chunks env channel [] dcMessage w = (Inr dcMessage, w)"
| "send_chunks env channel (chunk # chunks) dcMessage w =
     (case channel of
        None \<Rightarrow> (Inl TypeError, w)
      | Some ch \<Rightarrow>
          (case dc_send env ch chunk None w of
             (Inl err, w') \<Rightarrow> (Inl err, w')
           | (Inr d, w') \<Rightarrow> send_chunks env channel chunks (Some d) w'))"

definition bracket :: "bridge \<Rightarrow> string \<Rightarrow> string" where
  "bracket b rest = ''['' @ name b @ '']'' @ rest"

definition text_handler :: "env \<Rightarrow> message \<Rightarrow> bridge \<Rightarrow> unit comp" where
  "text_handler env message b =
     (let messageObj = messageConverter env message b in
      try_catch
        (await (dc_ready_wait env) (\<lambda>_.
           case match_chunks (composed messageObj) of
             None \<Rightarrow> throw TypeError
           | Some chunks \<Rightarrow>
               await (send_chunks env (channels_get env (channelId b)) chunks None) (\<lambda>dcMessage.
                 case dcMessage of
                   None \<Rightarrow> throw TypeError
                 | Some d \<Rightarrow> messageMap_insert (message_id message) d)))
        (\<lambda>err w.
           logger_error (bracket b '' Failed message:'') [LogText (msg_text message)]
             (logger_error (bracket b '' Discord did not accept a text message:'') [LogErr err] w)))"

text \<open>The two lines the text handler logs when its relay fails.\<close>

definition text_log :: "bridge \<Rightarrow> message \<Rightarrow> error \<Rightarrow> log_entry list" where
  "text_log b m err =
     [(bracket b '' Discord did not accept a text message:'', [LogErr err]),
      (bracket b '' Failed message:'', [LogText (msg_text m)])]"

subsection \<open>Files\<close>

text \<open>
  \<^verbatim>\<open>Promise.all\<close> of two calls: both are issued, and the result is rejected when one of
  them is (with the first call's error when both are).
\<close>

definition promise_all :: "'a comp \<Rightarrow> 'b comp \<Rightarrow> ('a \<times> 'b) comp" where
  "promise_all p q w =
     (case p w of (r1, w1) \<Rightarrow>
        (case q w1 of (r2, w2) \<Rightarrow>
           ((case r1 of
               Inl err \<Rightarrow> Inl err
             | Inr x \<Rightarrow> (case r2 of Inl err \<Rightarrow> Inl err | Inr y \<Rightarrow> Inr (x, y))), w2)))"

definition textToSend :: "messageObj \<Rightarrow> string option \<Rightarrow> string" where
  "textToSend messageObj caption_arg =
     ''**'' @ msg_from messageObj @ ''**:'' @ [CHR 0x0A] @
     (case caption_arg of None \<Rightarrow> [] | Some c \<Rightarrow> c)"

definition resolve_extension :: "bool \<Rightarrow> string option \<Rightarrow> string comp" where
  "resolve_extension resolveExtension file_path =
     (if resolveExtension
      then (case file_path of
              None \<Rightarrow> throw TypeError
            | Some path \<Rightarrow> ok (''.'' @ last (split_dot path)))
      else ok [])"

text \<open>
  \<^verbatim>\<open>request(fileLink)\<close> starts the download and returns its stream: the link, and
  the fate of the download. The stream has no listener of its own. When it is handed to
  \<^verbatim>\<open>send\<close>, the client of Discord reads it, and a failed download rejects the send.
  When the relay ends before that, nobody reads the stream, and a failed download is an
  uncaught exception.
\<close>

type_synonym stream = "string \<times> error option"

definition request :: "env \<Rightarrow> string \<Rightarrow> world \<Rightarrow> stream" where
  "request env fileLink w = (fileLink, download_result env (calls w) fileLink)"

definition orphan :: "stream \<Rightarrow> world \<Rightarrow> world" where
  "orphan fileStream w =
     (case snd fileStream of
        None \<Rightarrow> w
      | Some err \<Rightarrow> w\<lparr>uncaught := uncaught w @ [err]\<rparr>)"

definition dc_send_file :: "env \<Rightarrow> string \<Rightarrow> string \<Rightarrow> stream \<Rightarrow> string \<Rightarrow> string comp" where
  "dc_send_file env ch txt fileStream fileName w =
     (case snd fileStream of
        None \<Rightarrow> dc_send env ch txt (Some (fst fileStream, fileName)) w
      | Some err \<Rightarrow>
          (Inl err, record_call (DcSend ch txt (Some (fst fileStream, fileName))) (Some err) w))"

text \<open>
  The end of the function \<^verbatim>\<open>makeFileSender\<close> returns, from the line that starts the
  download: the download is started before the extension is resolved and before the
  channel is looked up.
\<close>

definition pass_on ::
  "env \<Rightarrow> bridge \<Rightarrow> string \<Rightarrow> string option \<Rightarrow> bool \<Rightarrow> string option \<Rightarrow> string \<Rightarrow> unit comp" where
  "pass_on env b txt fileName resolveExtension file_path fileLink w =
     (let fileStream = request env fileLink w in
      case resolve_extension resolveExtension file_path w of
        (Inl err, w') \<Rightarrow> (Inl err, orphan fileStream w')
      | (Inr extension, w') \<Rightarrow>
          (case channels_get env (channelId b) of
             None \<Rightarrow> (Inl TypeError, orphan fileStream w')
           | Some ch \<Rightarrow>
               await (dc_send_file env ch txt fileStream (js_undefined fileName @ extension))
                 (\<lambda>_. ok ()) w'))"

text \<open>
  The function \<^verbatim>\<open>makeFileSender\<close> returns. \<open>fileName\<close> and \<open>caption_arg\<close> may be
  \<^verbatim>\<open>undefined\<close>; the caption then takes its default, the empty string.
\<close>

definition sendFile ::
  "env \<Rightarrow> bridge \<Rightarrow> message \<Rightarrow> string \<Rightarrow> string option \<Rightarrow> string option \<Rightarrow> bool \<Rightarrow> unit comp" where
  "sendFile env b message fileId fileName caption_arg resolveExtension =
     (let messageObj = messageConverter env message b in
      await (dc_ready_wait env) (\<lambda>_.
      await (promise_all (tg_getFile env fileId) (tg_getFileLink env fileId)) (\<lambda>(file_path, fileLink).
        pass_on env b (textToSend messageObj caption_arg) fileName resolveExtension
          file_path fileLink)))"

text \<open>
  The handlers of the file-bearing updates. Each logs, in its \<^verbatim>\<open>catch\<close>, one line that
  starts with the bridge's name in brackets. The document handler reads
  \<^verbatim>\<open>message.document\<close> and makes the file name before its \<^verbatim>\<open>try\<close>.
\<close>

definition log_failure :: "bridge \<Rightarrow> string \<Rightarrow> error \<Rightarrow> world \<Rightarrow> world" where
  "log_failure b what err = logger_error (bracket b what) [LogErr err]"

definition photo_handler :: "env \<Rightarrow> message \<Rightarrow> bridge \<Rightarrow> unit comp" where
  "photo_handler env message b =
     try_catch
       (case photo message of
          None \<Rightarrow> throw TypeError
        | Some sizes \<Rightarrow>
            if sizes = [] then throw TypeError
            else sendFile env b message (last sizes) (Some ''photo.jpg'') (caption message) False)
       (log_failure b '' Could not send photo'')"

definition sticker_handler :: "env \<Rightarrow> message \<Rightarrow> bridge \<Rightarrow> unit comp" where
  "sticker_handler env message b =
     try_catch
       (case sticker message of
          None \<Rightarrow> throw TypeError
        | Some s \<Rightarrow>
            (case thumb s of
               None \<Rightarrow> throw TypeError
             | Some fileId \<Rightarrow>
                 sendFile env b message fileId (Some ''sticker.webp'')
                   (if sendEmojiWithStickers env then emoji s else None) False))
       (log_failure b '' Could not send sticker'')"

definition document_handler :: "env \<Rightarrow> message \<Rightarrow> bridge \<Rightarrow> unit comp" where
  "document_handler env message b =
     (case document message of
        None \<Rightarrow> throw TypeError
      | Some d \<Rightarrow>
          (let fileName =
                 (case file_name d of
                    Some f \<Rightarrow> f
                  | None \<Rightarrow> ''file.'' @ js_null (getExtension env (doc_mime_type d)))
           in try_catch
                (sendFile env b message (doc_file_id d) (Some fileName) None False)
                (log_failure b '' Could not send document'')))"

definition voice_handler :: "env \<Rightarrow> message \<Rightarrow> bridge \<Rightarrow> unit comp" where
  "voice_handler env message b =
     try_catch
       (case voice message of
          None \<Rightarrow> throw TypeError
        | Some v \<Rightarrow>
            sendFile env b message (voice_file_id v)
              (Some (''voice'' @ ''.'' @ js_null (getExtension env (voice_mime_type v)))) None False)
       (log_failure b '' Could not send voice'')"

definition audio_handler :: "env \<Rightarrow> message \<Rightarrow> bridge \<Rightarrow> unit comp" where
  "audio_handler env message b =
     try_catch
       (case audio message of
          None \<Rightarrow> throw TypeError
        | Some a \<Rightarrow> sendFile env b message (audio_file_id a) (title a) None True)
       (log_failure b '' Could not send audio'')"

definition video_handler :: "env \<Rightarrow> message \<Rightarrow> bridge \<Rightarrow> unit comp" where
  "video_handler env message b =
     try_catch
       (case video message of
          None \<Rightarrow> throw TypeError
        | Some v \<Rightarrow>
            sendFile env b message (video_file_id v)
              (Some (''video'' @ ''.'' @ js_null (getExtension env (video_mime_type v))))
              (caption message) False)
       (log_failure b '' Could not send video'')"

subsection \<open>Joining and leaving\<close>

record nameObj =
  nm_name :: string
  nm_username :: string

definition makeNameObject :: "user \<Rightarrow> nameObj" where
  "makeNameObject u =
     \<lparr>nm_name = first_name u @ (case last_name u of Some l \<Rightarrow> '' '' @ l | None \<Rightarrow> []),
      nm_username = (case username u of Some h \<Rightarrow> ''@'' @ h | None \<Rightarrow> ''No username'')\<rparr>"

definition notice_text :: "user \<Rightarrow> string \<Rightarrow> string" where
  "notice_text u what =
     (let nameObj = makeNameObject u
      in ''**'' @ nm_name nameObj @ '' ('' @ nm_username nameObj @ '')** '' @ what @
         '' the Telegram side of the chat'')"

definition send_notice :: "env \<Rightarrow> bridge \<Rightarrow> string \<Rightarrow> string comp" where
  "send_notice env b txt =
     await (dc_ready_wait env) (\<lambda>_.
       case channels_get env (channelId b) of
         None \<Rightarrow> throw TypeError
       | Some ch \<Rightarrow> dc_send env ch txt None)"

definition notify_joined :: "env \<Rightarrow> bridge \<Rightarrow> user \<Rightarrow> unit comp" where
  "notify_joined env b u =
     try_catch (send_notice env b (notice_text u ''joined''))
       (log_failure b '' Could not notify Discord about a user that joined Telegram'')"

text \<open>
  \<^verbatim>\<open>forEach\<close> starts one task per user and keeps none of their promises; the tasks
  reach their \<^verbatim>\<open>send\<close> in the order of the users.
\<close>

fun forEach :: "('a \<Rightarrow> unit comp) \<Rightarrow> 'a list \<Rightarrow> unit comp" where
  "forEach f [] w = (Inr (), w)"
| "forEach f (x # xs) w = forEach f xs (snd (f x w))"

definition new_chat_members_handler :: "env \<Rightarrow> message \<Rightarrow> bridge \<Rightarrow> unit comp" where
  "new_chat_members_handler env message b =
     (if \<not> relayJoinMessages b then ok ()
      else (case new_chat_members message of
              None \<Rightarrow> throw TypeError
            | Some users \<Rightarrow> forEach (notify_joined env b) users))"

definition left_chat_member_handler :: "env \<Rightarrow> message \<Rightarrow> bridge \<Rightarrow> unit comp" where
  "left_chat_member_handler env message b =
     (if \<not> relayLeaveMessages b then ok ()
      else (case left_chat_member message of
              None \<Rightarrow> throw TypeError
            | Some u \<Rightarrow>
                try_catch (send_notice env b (notice_text u ''left''))
                  (log_failure b '' Could not notify Discord about a user that left Telegram'')))"

subsection \<open>Edits\<close>

definition edited_message_handler :: "env \<Rightarrow> message \<Rightarrow> bridge \<Rightarrow> unit comp" where
  "edited_message_handler env tgMessage b =
     try_catch
       (await (dc_ready_wait env) (\<lambda>_.
        await (getCorresponding (message_id tgMessage)) (\<lambda>dcMessageId.
          case channels_get env (channelId b) of
            None \<Rightarrow> throw TypeError
          | Some ch \<Rightarrow>
              await (dc_fetchMessage env ch dcMessageId) (\<lambda>dcMessage.
                (let messageObj = messageConverter env tgMessage b
                 in dc_edit env ch dcMessageId (composed messageObj))))))
       (log_failure b '' Could not edit Discord message:'')"

section \<open>The wrapper of every handler\<close>

definition ctx_canonical :: "ctx \<Rightarrow> message option" where
  "ctx_canonical c =
     (if ctx_message c \<noteq> None \<or> channel_post c \<noteq> None
      then (case ctx_message c of Some m \<Rightarrow> Some m | None \<Rightarrow> channel_post c)
      else editedMessage c)"

definition is_chatinfo :: "world \<Rightarrow> message \<Rightarrow> bool" where
  "is_chatinfo w message =
     (case msg_text message of
        None \<Rightarrow> False
      | Some t \<Rightarrow>
          (case me w of
             None \<Rightarrow> False
           | Some self \<Rightarrow>
               toLowerCase t = toLowerCase (''@'' @ js_undefined (username self) @ '' chatinfo'')))"

definition advisory_text :: string where
  "advisory_text =
     ''This is an instance of a [TediCross](https://github.com/TediCross/TediCross) bot, '' @
     ''bridging a chat in Telegram with one in Discord. '' @
     ''If you wish to use TediCross yourself, please download and create an instance. '' @
     ''Join our [Telegram group](https://t.me/TediCrossSupport) or [Discord server](https://discord.gg/MfzGMzy) for help''"

definition advisory_call :: "message \<Rightarrow> call" where
  "advisory_call message = TgSendMessage (chat_id message) advisory_text (Some ''markdown'')"

definition chatinfo_call :: "message \<Rightarrow> call" where
  "chatinfo_call message =
     TgSendMessage (chat_id message) (''chatID: '' @ string_of_int (chat_id message)) None"

text \<open>
  The wrapper neither awaits nor catches what the wrapped handler returns, nor the
  promise of the chat-info reply: an error they end with leaves the wrapper, as an
  exception or as a rejection nobody handles. It is the \<open>Inl\<close> of the result.
\<close>

definition createMessageHandler ::
  "env \<Rightarrow> (message \<Rightarrow> bridge \<Rightarrow> unit comp) \<Rightarrow> ctx \<Rightarrow> unit comp" where
  "createMessageHandler env func c w =
     (case ctx_canonical c of
        None \<Rightarrow> (Inl TypeError, w)
      | Some message \<Rightarrow>
          if is_chatinfo w message
          then tg_sendMessage env (chat_id message)
                 (''chatID: '' @ string_of_int (chat_id message)) None w
          else
            (case fromTelegramChatId env (chat_id message) of
               None \<Rightarrow>
                 try_catch
                   (tg_sendMessage env (chat_id message) advisory_text (Some ''markdown''))
                   (\<lambda>err. logger_error ''Could not tell user to get their own TediCross instance:''
                            [LogErr err, LogMessage message]) w
             | Some b \<Rightarrow>
                 if direction b \<noteq> DIRECTION_DISCORD_TO_TELEGRAM then func message b w
                 else (Inr (), w)))"

subsection \<open>The handlers \<^verbatim>\<open>setup\<close> registers\<close>

datatype update_type =
    On_text
  | On_photo
  | On_sticker
  | On_document
  | On_voice
  | On_audio
  | On_video
  | On_new_chat_members
  | On_left_chat_member
  | On_edited_message

fun handler_of :: "env \<Rightarrow> update_type \<Rightarrow> message \<Rightarrow> bridge \<Rightarrow> unit comp" where
  "handler_of env On_text = text_handler env"
| "handler_of env On_photo = photo_handler env"
| "handler_of env On_sticker = sticker_handler env"
| "handler_of env On_document = document_handler env"
| "handler_of env On_voice = voice_handler env"
| "handler_of env On_audio = audio_handler env"
| "handler_of env On_video = video_handler env"
| "handler_of env On_new_chat_members = new_chat_members_handler env"
| "handler_of env On_left_chat_member = left_chat_member_handler env"
| "handler_of env On_edited_message = edited_message_handler env"

definition on_update :: "env \<Rightarrow> update_type \<times> ctx \<Rightarrow> unit comp" where
  "on_update env u = createMessageHandler env (handler_of env (fst u)) (snd u)"

text \<open>
  Updates are handled in the order they arrive. An error that leaves a wrapper ends the
  run, and so does an uncaught exception: the updates after it are not handled.
\<close>

fun run_updates :: "env \<Rightarrow> (update_type \<times> ctx) list \<Rightarrow> unit comp" where
  "run_updates env [] w = (Inr (), w)"
| "run_updates env (u # us) w =
     (case on_update env u w of
        (Inl err, w') \<Rightarrow> (Inl err, w')
      | (Inr x, w') \<Rightarrow>
          (case uncaught w' of
             [] \<Rightarrow> run_updates env us w'
           | err # errs \<Rightarrow> (Inl err, w')))"

text \<open>
  Telegraf calls the handler of an update type only with a message that has the
  property of that name.
\<close>

fun payload_present :: "update_type \<Rightarrow> message \<Rightarrow> bool" where
  "payload_present On_text m = (msg_text m \<noteq> None)"
| "payload_present On_photo m = (photo m \<noteq> None)"
| "payload_present On_sticker m = (sticker m \<noteq> None)"
| "payload_present On_document m = (document m \<noteq> None)"
| "payload_present On_voice m = (voice m \<noteq> None)"
| "payload_present On_audio m = (audio m \<noteq> None)"
| "payload_present On_video m = (video m \<noteq> None)"
| "payload_present On_new_chat_members m = (new_chat_members m \<noteq> None)"
| "payload_present On_left_chat_member m = (left_chat_member m \<noteq> None)"
| "payload_present On_edited_message m = True"


section \<open>What a run has added\<close>

definition new_calls :: "world \<Rightarrow> world \<Rightarrow> trace" where
  "new_calls w w' = drop (length (calls w)) (calls w')"

definition new_logged :: "world \<Rightarrow> world \<Rightarrow> log_entry list" where
  "new_logged w w' = drop (length (logged w)) (logged w')"

text \<open>
  The ids Discord answers with when the chunks are sent one after the other, each after
  the one before it has been accepted; \<open>None\<close> when Discord rejects one of them.
\<close>

fun sent_ids :: "env \<Rightarrow> trace \<Rightarrow> string \<Rightarrow> string list \<Rightarrow> string list option" where
  "sent_ids env tr ch [] = Some []"
| "sent_ids env tr ch (chunk # chunks) =
     (case dc_send_result env tr (DcSend ch chunk None) of
        Inl err \<Rightarrow> None
      | Inr d \<Rightarrow> map_option ((#) d) (sent_ids env (tr @ [(DcSend ch chunk None, None)]) ch chunks))"

text \<open>The three calls of a file relay that found its file: the last may have failed.\<close>

definition file_relay :: "string \<Rightarrow> string \<Rightarrow> string \<Rightarrow> string \<Rightarrow> string \<Rightarrow> error option \<Rightarrow> trace" where
  "file_relay fileId ch t link file r =
     [(TgGetFile fileId, None), (TgGetFileLink fileId, None),
      (DcSend ch t (Some (link, file)), r)]"

text \<open>The line the edit handler logs when the edit fails.\<close>

definition edit_log :: "bridge \<Rightarrow> error \<Rightarrow> log_entry" where
  "edit_log b err = (bracket b '' Could not edit Discord message:'', [LogErr err])"

text \<open>The line the wrapper logs when the advisory notice could not be sent.\<close>

definition advisory_log :: "message \<Rightarrow> error option \<Rightarrow> log_entry list" where
  "advisory_log m r =
     (case r of
        None \<Rightarrow> []
      | Some err \<Rightarrow>
          [(''Could not tell user to get their own TediCross instance:'', [LogErr err, LogMessage m])])"

section \<open>Failures that stay inside a handler\<close>

text \<open>
  A step is \<open>quiet\<close> when it only adds calls to the trace, and ends with an error
  whenever one of the calls it added has failed.
\<close>

definition quiet :: "world \<Rightarrow> 'a result \<times> world \<Rightarrow> bool" where
  "quiet w out \<longleftrightarrow>
     logged (snd out) = logged w \<and> messageMap (snd out) = messageMap w \<and> me (snd out) = me w \<and>
     (\<exists>new. calls (snd out) = calls w @ new \<and>
        ((\<exists>x\<in>set new. snd x \<noteq> None) \<longrightarrow> (\<exists>err. fst out = Inl err)))"

text \<open>
  A handler's run is \<open>contained\<close> when no error leaves it, it only adds calls and log
  lines, every line it adds starts with the bridge's name in brackets, and it adds a
  line whenever one of the calls it added has failed.
\<close>

definition contained :: "bridge \<Rightarrow> world \<Rightarrow> unit result \<times> world \<Rightarrow> bool" where
  "contained b w out \<longleftrightarrow>
     fst out = Inr () \<and> me (snd out) = me w \<and>
     prefix (calls w) (calls (snd out)) \<and> prefix (logged w) (logged (snd out)) \<and>
     ((\<exists>x\<in>set (new_calls w (snd out)). snd x \<noteq> None) \<longrightarrow> new_logged w (snd out) \<noteq> []) \<and>
     (\<forall>l\<in>set (new_logged w (snd out)). prefix (''['' @ name b @ '']'') (fst l))"

section \<open>A bridge, a chat and a Discord that accepts everything\<close>

definition ex_bridge :: bridge where
  "ex_bridge =
     \<lparr>name = ''Default bridge'', direction = DIRECTION_BOTH, relayJoinMessages = True,
      relayLeaveMessages = True, bridge_sendEmojiWithStickers = True, channelId = ''412''\<rparr>"



definition ex_message :: message where
  "ex_message =
     \<lparr>message_id = 7, chat_id = - 100, msg_text = None, caption = None, photo = None,
      sticker = None, document = None, voice = None, audio = None, video = None,
      new_chat_members = None, left_chat_member = None\<rparr>"

definition ex_ctx :: "message \<Rightarrow> ctx" where
  "ex_ctx m = \<lparr>ctx_message = Some m, channel_post = None, editedMessage = None\<rparr>"

definition ex_mime :: "string option \<Rightarrow> string option" where
  "ex_mime t =
     (if t = Some ''audio/ogg'' then Some ''oga''
      else if t = Some ''audio/mpeg'' then Some ''mp3''
      else if t = Some ''video/mp4'' then Some ''mp4''
      else None)"

definition ex_env :: env where
  "ex_env =
     \<lparr>messageConverter = (\<lambda>m b. \<lparr>msg_from = ''Ann'', composed = js_undefined (msg_text m)\<rparr>),
      getExtension = ex_mime,
      sendEmojiWithStickers = False,
      fromTelegramChatId = (\<lambda>c. if c = - 100 then Some ex_bridge else None),
      dc_ready = None,
      dc_channels = (\<lambda>c. c = ''412''),
      dc_send_result = (\<lambda>tr c. Inr (replicate (Suc (length tr)) CHR ''9'')),
      dc_fetch_result = (\<lambda>tr c. None),
      dc_edit_result = (\<lambda>tr c. None),
      tg_getFile_result = (\<lambda>tr c. Inr (Some ''music/file_1.ogg'')),
      tg_getFileLink_result = (\<lambda>tr c. Inr ''https://api.telegram.org/file/1''),
      tg_sendMessage_result = (\<lambda>tr c. None),
      download_result = (\<lambda>tr link. None)\<rparr>"

definition ex_world :: world where
  "ex_world =
     \<lparr>calls = [], logged = [], messageMap = Map.empty,
      me = Some \<lparr>first_name = ''TediCross'', last_name = None, username = Some ''TediBot''\<rparr>,
      uncaught = []\<rparr>"

definition ex_hello :: message where
  "ex_hello = ex_message\<lparr>msg_text := Some ''hello''\<rparr>"


definition ex_chatinfo :: message where
  "ex_chatinfo = ex_message\<lparr>chat_id := 5, msg_text := Some ''@tedibot ChatInfo''\<rparr>"

definition ex_photo :: message where
  "ex_photo = ex_message\<lparr>photo := Some [''small'', ''large''], caption := Some ''look''\<rparr>"

definition ex_sticker :: message where
  "ex_sticker = ex_message\<lparr>sticker := Some \<lparr>thumb = Some ''thumb1'', emoji = Some '':)''\<rparr>\<rparr>"

definition ex_voice :: message where
  "ex_voice =
     ex_message\<lparr>voice := Some \<lparr>voice_file_id = ''v1'', voice_mime_type = Some ''audio/ogg''\<rparr>\<rparr>"

definition ex_audio :: message where
  "ex_audio =
     ex_message\<lparr>audio := Some \<lparr>audio_file_id = ''a1'', title = Some ''Song'',
       audio_mime_type = Some ''audio/mpeg''\<rparr>\<rparr>"


definition ex_one_way :: env where
  "ex_one_way =
     ex_env\<lparr>fromTelegramChatId :=
       (\<lambda>c. Some (ex_bridge\<lparr>direction := DIRECTION_DISCORD_TO_TELEGRAM\<rparr>))\<rparr>"


text \<open>
  Two bridges: the second bridges the chat \<open>-200\<close>, where message ids are counted anew.
\<close>

definition ex_second :: bridge where
  "ex_second = ex_bridge\<lparr>name := ''Second bridge'', channelId := ''413''\<rparr>"

definition ex_two :: env where
  "ex_two =
     ex_env\<lparr>fromTelegramChatId :=
              (\<lambda>c. if c = - 100 then Some ex_bridge else if c = - 200 then Some ex_second else None),
            dc_channels := (\<lambda>c. c = ''412'' \<or> c = ''413'')\<rparr>"


text \<open>
  A Discord that does not know the channel of the second bridge, and downloads that
  break.
\<close>

definition ex_orphan :: env where
  "ex_orphan =
     ex_two\<lparr>dc_channels := (\<lambda>c. c = ''412''),
            download_result := (\<lambda>tr link. Some (ApiError ''ECONNRESET''))\<rparr>"

section \<open>Chunking\<close>

lemma chunks_of_Nil: "chunks_of n [] = []"
  by (simp add: chunks_of.simps)

lemma chunks_of_step:
  "0 < n \<Longrightarrow> xs \<noteq> [] \<Longrightarrow> chunks_of n xs = take n xs # chunks_of n (drop n xs)"
  by (subst chunks_of.simps) simp

lemma chunks_of_nonempty: "0 < n \<Longrightarrow> xs \<noteq> [] \<Longrightarrow> chunks_of n xs \<noteq> []"
  by (simp add: chunks_of_step)

lemma concat_chunks_of: "0 < n \<Longrightarrow> concat (chunks_of n xs) = xs"
proof (induction n xs rule: chunks_of.induct)
  case (1 n xs)
  show ?case
  proof (cases "xs = []")
    case True
    then show ?thesis by (simp add: chunks_of_Nil)
  next
    case False
    with 1 show ?thesis by (simp add: chunks_of_step)
  qed
qed

lemma chunks_of_bounds: "c \<in> set (chunks_of n xs) \<Longrightarrow> 0 < length c \<and> length c \<le> n"
proof (induction n xs rule: chunks_of.induct)
  case (1 n xs)
  show ?case
  proof (cases "n = 0 \<or> xs = []")
    case True
    with 1(2) show ?thesis by (simp add: chunks_of.simps)
  next
    case False
    then have step: "chunks_of n xs = take n xs # chunks_of n (drop n xs)"
      by (simp add: chunks_of_step)
    from 1(2) step have "c = take n xs \<or> c \<in> set (chunks_of n (drop n xs))"
      by simp
    then show ?thesis
    proof
      assume "c = take n xs"
      with False show ?thesis by (cases xs) auto
    next
      assume "c \<in> set (chunks_of n (drop n xs))"
      with 1(1) False show ?thesis by simp
    qed
  qed
qed

lemma ceil_div_step:
  fixes n k :: nat
  assumes "0 < n" "0 < k"
  shows "(k + n - 1) div n = Suc ((k - n + n - 1) div n)"
proof -
  from assms have l: "k + n - 1 = (k - 1) + n" by simp
  from assms have "n \<noteq> 0" by simp
  then have g: "\<And>a. (a + n) div n = Suc (a div n)" using div_add_self2 [of n] by simp
  have r: "(k - n + n - 1) div n = (k - 1) div n"
  proof (cases "k \<le> n")
    case True
    with assms have "(k - n + n - 1) div n = 0" "(k - 1) div n = 0" by simp_all
    then show ?thesis by simp
  next
    case False
    then have "k - n + n - 1 = k - 1" by simp
    then show ?thesis by simp
  qed
  have "(k + n - 1) div n = ((k - 1) + n) div n" by (simp only: l)
  also have "\<dots> = Suc ((k - 1) div n)" by (rule g)
  finally show ?thesis by (simp only: r)
qed

lemma length_chunks_of: "0 < n \<Longrightarrow> length (chunks_of n xs) = (length xs + n - 1) div n"
proof (induction n xs rule: chunks_of.induct)
  case (1 n xs)
  show ?case
  proof (cases "xs = []")
    case True
    with 1(2) show ?thesis by (simp add: chunks_of_Nil)
  next
    case False
    with 1 have ih: "length (chunks_of n (drop n xs)) = (length xs - n + n - 1) div n"
      by simp
    from False 1(2) have "length (chunks_of n xs) = Suc (length (chunks_of n (drop n xs)))"
      by (simp add: chunks_of_step)
    also have "\<dots> = Suc ((length xs - n + n - 1) div n)"
      by (simp only: ih)
    also have "\<dots> = (length xs + n - 1) div n"
    proof -
      from False have "0 < length xs" by simp
      with 1(2) show ?thesis by (rule ceil_div_step [symmetric])
    qed
    finally show ?thesis .
  qed
qed

section \<open>The clients' operations, unfolded\<close>

lemma dc_send_eq:
  "dc_send env ch ctext att w =
     (dc_send_result env (calls w) (DcSend ch ctext att),
      record_call (DcSend ch ctext att) (failure_of (dc_send_result env (calls w) (DcSend ch ctext att))) w)"
  by (simp add: dc_send_def Let_def)

lemma dc_fetchMessage_eq:
  "dc_fetchMessage env ch mid w =
     (unit_result (dc_fetch_result env (calls w) (DcFetchMessage ch mid)),
      record_call (DcFetchMessage ch mid) (dc_fetch_result env (calls w) (DcFetchMessage ch mid)) w)"
  by (simp add: dc_fetchMessage_def Let_def)

lemma dc_edit_eq:
  "dc_edit env ch mid t w =
     (unit_result (dc_edit_result env (calls w) (DcEdit ch mid t)),
      record_call (DcEdit ch mid t) (dc_edit_result env (calls w) (DcEdit ch mid t)) w)"
  by (simp add: dc_edit_def Let_def)

lemma tg_getFile_eq:
  "tg_getFile env fileId w =
     (tg_getFile_result env (calls w) (TgGetFile fileId),
      record_call (TgGetFile fileId) (failure_of (tg_getFile_result env (calls w) (TgGetFile fileId))) w)"
  by (simp add: tg_getFile_def Let_def)

lemma tg_getFileLink_eq:
  "tg_getFileLink env fileId w =
     (tg_getFileLink_result env (calls w) (TgGetFileLink fileId),
      record_call (TgGetFileLink fileId)
        (failure_of (tg_getFileLink_result env (calls w) (TgGetFileLink fileId))) w)"
  by (simp add: tg_getFileLink_def Let_def)

lemma tg_sendMessage_eq:
  "tg_sendMessage env chat t pm w =
     (unit_result (tg_sendMessage_result env (calls w) (TgSendMessage chat t pm)),
      record_call (TgSendMessage chat t pm)
        (tg_sendMessage_result env (calls w) (TgSendMessage chat t pm)) w)"
  by (simp add: tg_sendMessage_def Let_def)

lemma new_calls_append [simp]: "calls w' = calls w @ new \<Longrightarrow> new_calls w w' = new"
  by (simp add: new_calls_def)

lemma new_logged_append [simp]: "logged w' = logged w @ lg \<Longrightarrow> new_logged w w' = lg"
  by (simp add: new_logged_def)

section \<open>The text handler\<close>

lemma sent_ids_length: "sent_ids env tr ch cs = Some ids \<Longrightarrow> length ids = length cs"
  by (induction cs arbitrary: tr ids) (auto split: sum.splits)

lemma send_chunks_accepted:
  "sent_ids env (calls w) ch cs = Some ids \<Longrightarrow>
   send_chunks env (Some ch) cs d0 w =
     (Inr (if cs = [] then d0 else Some (last ids)),
      w\<lparr>calls := calls w @ map (\<lambda>c. (DcSend ch c None, None)) cs\<rparr>)"
proof (induction cs arbitrary: w d0 ids)
  case Nil
  then show ?case by simp
next
  case (Cons c cs)
  from Cons.prems obtain d ids' where
    d: "dc_send_result env (calls w) (DcSend ch c None) = Inr d" and
    ids': "sent_ids env (calls w @ [(DcSend ch c None, None)]) ch cs = Some ids'" and
    ids: "ids = d # ids'"
    by (auto split: sum.splits)
  let ?w1 = "record_call (DcSend ch c None) None w"
  have s: "dc_send env ch c None w = (Inr d, ?w1)"
    by (simp add: dc_send_eq d failure_of_def)
  have "sent_ids env (calls ?w1) ch cs = Some ids'"
    using ids' by (simp add: record_call_def)
  from Cons.IH [OF this, of "Some d"]
  have "send_chunks env (Some ch) cs (Some d) ?w1 =
     (Inr (if cs = [] then Some d else Some (last ids')),
      ?w1\<lparr>calls := calls ?w1 @ map (\<lambda>c. (DcSend ch c None, None)) cs\<rparr>)" .
  moreover have "length ids' = length cs" using ids' by (rule sent_ids_length)
  ultimately show ?case using s ids
    by (auto simp: record_call_def)
qed

lemma send_chunks_frame:
  "send_chunks env channel cs d0 w = (r, w') \<Longrightarrow>
   logged w' = logged w \<and> messageMap w' = messageMap w \<and> me w' = me w"
proof (induction cs arbitrary: w d0)
  case Nil
  then show ?case by auto
next
  case (Cons c cs)
  show ?case
  proof (cases channel)
    case None
    with Cons.prems show ?thesis by auto
  next
    case (Some ch)
    show ?thesis
    proof (cases "dc_send_result env (calls w) (DcSend ch c None)")
      case (Inl err)
      with Cons.prems Some show ?thesis
        by (auto simp: dc_send_eq record_call_def)
    next
      case (Inr d)
      with Cons.prems Some have
        "send_chunks env channel cs (Some d) (record_call (DcSend ch c None) None w) = (r, w')"
        by (simp add: dc_send_eq failure_of_def)
      from Cons.IH [OF this] show ?thesis by (simp add: record_call_def)
    qed
  qed
qed

lemma send_chunks_prefix:
  "send_chunks env (Some ch) cs d0 w = (r, w') \<Longrightarrow>
   \<exists>new. calls w' = calls w @ new \<and> length new \<le> length cs \<and>
     map fst new = map (\<lambda>c. DcSend ch c None) (take (length new) cs) \<and>
     (\<forall>x\<in>set (butlast new). snd x = None) \<and>
     (case r of Inl err \<Rightarrow> new \<noteq> [] \<and> snd (last new) = Some err
              | Inr d \<Rightarrow> length new = length cs \<and> (\<forall>x\<in>set new. snd x = None))"
proof (induction cs arbitrary: w d0)
  case Nil
  then show ?case by auto
next
  case (Cons c cs)
  show ?case
  proof (cases "dc_send_result env (calls w) (DcSend ch c None)")
    case (Inl err)
    with Cons.prems have "r = Inl err" "calls w' = calls w @ [(DcSend ch c None, Some err)]"
      by (auto simp: dc_send_eq record_call_def failure_of_def)
    then show ?thesis by simp
  next
    case (Inr d)
    let ?x = "(DcSend ch c None, None :: error option)"
    from Inr Cons.prems have
      "send_chunks env (Some ch) cs (Some d) (record_call (DcSend ch c None) None w) = (r, w')"
      by (simp add: dc_send_eq failure_of_def)
    from Cons.IH [OF this] obtain new where
      new: "calls w' = calls w @ ?x # new" "length new \<le> length cs"
        "map fst new = map (\<lambda>c. DcSend ch c None) (take (length new) cs)"
        "\<forall>x\<in>set (butlast new). snd x = None"
        "case r of Inl err \<Rightarrow> new \<noteq> [] \<and> snd (last new) = Some err
              | Inr d \<Rightarrow> length new = length cs \<and> (\<forall>x\<in>set new. snd x = None)"
      by (auto simp: record_call_def)
    have "\<forall>x\<in>set (butlast (?x # new)). snd x = None"
      using new(4) by (cases new) auto
    moreover have "case r of Inl err \<Rightarrow> ?x # new \<noteq> [] \<and> snd (last (?x # new)) = Some err
              | Inr d \<Rightarrow> length (?x # new) = length (c # cs) \<and> (\<forall>x\<in>set (?x # new). snd x = None)"
      using new(5) by (cases r) auto
    ultimately show ?thesis using new(1,2,3)
      by (intro exI [of _ "?x # new"]) simp
  qed
qed

lemma send_chunks_no_channel:
  "cs \<noteq> [] \<Longrightarrow> send_chunks env None cs d0 w = (Inl TypeError, w)"
  by (cases cs) simp_all

lemma text_handler_unfold:
  "text_handler env m b w =
     (case dc_ready env of
        Some err \<Rightarrow> (Inr (), w\<lparr>logged := logged w @ text_log b m err\<rparr>)
      | None \<Rightarrow>
          if composed (messageConverter env m b) = []
          then (Inr (), w\<lparr>logged := logged w @ text_log b m TypeError\<rparr>)
          else
            (case send_chunks env (channels_get env (channelId b))
                    (chunks_of 2000 (composed (messageConverter env m b))) None w of
               (Inl err, w') \<Rightarrow> (Inr (), w'\<lparr>logged := logged w' @ text_log b m err\<rparr>)
             | (Inr None, w') \<Rightarrow> (Inr (), w'\<lparr>logged := logged w' @ text_log b m TypeError\<rparr>)
             | (Inr (Some d), w') \<Rightarrow>
                 (Inr (), w'\<lparr>messageMap := (messageMap w')(message_id m \<mapsto> d)\<rparr>)))"
  by (simp add: text_handler_def Let_def try_catch_def await_def dc_ready_wait_def
      unit_result_def match_chunks_def throw_def messageMap_insert_def logger_error_def
      text_log_def
      split: option.splits sum.splits prod.splits)

lemma text_handler_effect:
  assumes run: "text_handler env m b w = (r, w')"
  defines "cs \<equiv> chunks_of 2000 (composed (messageConverter env m b))"
  shows "r = Inr () \<and> me w' = me w \<and>
    (\<forall>k. k \<noteq> message_id m \<longrightarrow> messageMap w' k = messageMap w k) \<and>
    (\<exists>new lg. calls w' = calls w @ new \<and> logged w' = logged w @ lg \<and>
       length new \<le> length cs \<and>
       map fst new = map (\<lambda>c. DcSend (channelId b) c None) (take (length new) cs) \<and>
       (\<forall>x\<in>set (butlast new). snd x = None) \<and>
       ((\<exists>x\<in>set new. snd x \<noteq> None) \<longrightarrow> lg \<noteq> []) \<and>
       (lg = [] \<and> (\<exists>d. messageMap w' = (messageMap w)(message_id m \<mapsto> d))
        \<or> (\<exists>err. lg = text_log b m err) \<and> messageMap w' = messageMap w))"
proof (cases "dc_ready env")
  case (Some err)
  with run have "r = Inr ()" "w' = w\<lparr>logged := logged w @ text_log b m err\<rparr>"
    by (simp_all add: text_handler_unfold)
  then show ?thesis
    by (intro conjI exI [of _ "[]"] exI [of _ "text_log b m err"]) auto
next
  case None
  show ?thesis
  proof (cases "composed (messageConverter env m b) = []")
    case True
    with run None have "r = Inr ()" "w' = w\<lparr>logged := logged w @ text_log b m TypeError\<rparr>"
      by (simp_all add: text_handler_unfold)
    then show ?thesis
      by (intro conjI exI [of _ "[]"] exI [of _ "text_log b m TypeError"]) auto
  next
    case False
    then have ne: "cs \<noteq> []" by (simp add: cs_def chunks_of_nonempty)
    show ?thesis
    proof (cases "dc_channels env (channelId b)")
      case nochan: False
      with run None \<open>composed (messageConverter env m b) \<noteq> []\<close> ne
      have "r = Inr ()" "w' = w\<lparr>logged := logged w @ text_log b m TypeError\<rparr>"
        by (simp_all add: text_handler_unfold channels_get_def send_chunks_no_channel cs_def)
      then show ?thesis
        by (intro conjI exI [of _ "[]"] exI [of _ "text_log b m TypeError"]) auto
    next
      case True
      obtain r1 w1 where s: "send_chunks env (Some (channelId b)) cs None w = (r1, w1)"
        by (cases "send_chunks env (Some (channelId b)) cs None w") auto
      from send_chunks_frame [OF s] have fr:
        "logged w1 = logged w" "messageMap w1 = messageMap w" "me w1 = me w" by simp_all
      from send_chunks_prefix [OF s] obtain new where new:
        "calls w1 = calls w @ new" "length new \<le> length cs"
        "map fst new = map (\<lambda>c. DcSend (channelId b) c None) (take (length new) cs)"
        "\<forall>x\<in>set (butlast new). snd x = None"
        "case r1 of Inl err \<Rightarrow> new \<noteq> [] \<and> snd (last new) = Some err
              | Inr d \<Rightarrow> length new = length cs \<and> (\<forall>x\<in>set new. snd x = None)"
        by blast
      from run None False True s have run':
        "(r, w') = (case r1 of
               Inl err \<Rightarrow> (Inr (), w1\<lparr>logged := logged w1 @ text_log b m err\<rparr>)
             | Inr None \<Rightarrow> (Inr (), w1\<lparr>logged := logged w1 @ text_log b m TypeError\<rparr>)
             | Inr (Some d) \<Rightarrow> (Inr (), w1\<lparr>messageMap := (messageMap w1)(message_id m \<mapsto> d)\<rparr>))"
        by (simp add: text_handler_unfold channels_get_def cs_def split: sum.splits option.splits)
      show ?thesis
      proof (cases r1)
        case (Inl err)
        with run' have "r = Inr ()" "w' = w1\<lparr>logged := logged w1 @ text_log b m err\<rparr>"
          by simp_all
        with fr new show ?thesis
          by (intro conjI exI [of _ new] exI [of _ "text_log b m err"]) (auto simp: text_log_def)
      next
        case (Inr d)
        show ?thesis
        proof (cases d)
          case None
          with Inr run' have "r = Inr ()" "w' = w1\<lparr>logged := logged w1 @ text_log b m TypeError\<rparr>"
            by simp_all
          with fr new show ?thesis
            by (intro conjI exI [of _ new] exI [of _ "text_log b m TypeError"]) (auto simp: text_log_def)
        next
          case (Some d')
          with Inr run' have "r = Inr ()" "w' = w1\<lparr>messageMap := (messageMap w1)(message_id m \<mapsto> d')\<rparr>"
            by simp_all
          with fr new Inr show ?thesis
            by (intro conjI exI [of _ new] exI [of _ "[]"]) auto
        qed
      qed
    qed
  qed
qed

text \<open>
  C1. The text handler splits the composed text of length L into ceil(L/2000) chunks in
  order, each of at most 2000 units, whose concatenation is the composed text. The calls
  it makes are sends of the first chunks, in order, and a chunk is sent only after every
  chunk before it has been accepted. When Discord is ready, knows the channel and accepts
  every chunk, all chunks are sent, and the message map changes at the source message id
  only, where it holds the id Discord gave the last chunk.
\<close>

theorem text_relay_chunks:
  fixes env :: env and m :: message and b :: bridge and w :: world
  defines "ctext \<equiv> composed (messageConverter env m b)"
  defines "cs \<equiv> chunks_of 2000 ctext"
  defines "w' \<equiv> snd (text_handler env m b w)"
  shows "length cs = (length ctext + 1999) div 2000 \<and>
    (\<forall>c\<in>set cs. 0 < length c \<and> length c \<le> 2000) \<and>
    concat cs = ctext \<and>
    (\<exists>new. calls w' = calls w @ new \<and> length new \<le> length cs \<and>
       map fst new = map (\<lambda>c. DcSend (channelId b) c None) (take (length new) cs) \<and>
       (\<forall>x\<in>set (butlast new). snd x = None)) \<and>
    (\<forall>k. k \<noteq> message_id m \<longrightarrow> messageMap w' k = messageMap w k) \<and>
    (dc_ready env = None \<and> dc_channels env (channelId b) \<and>
     sent_ids env (calls w) (channelId b) cs = Some ids \<longrightarrow>
       calls w' = calls w @ map (\<lambda>c. (DcSend (channelId b) c None, None)) cs \<and>
       messageMap w' =
         (if cs = [] then messageMap w else (messageMap w)(message_id m \<mapsto> last ids)))"
proof (intro conjI impI)
  show "length cs = (length ctext + 1999) div 2000"
    using length_chunks_of [of 2000 ctext] by (simp add: cs_def)
  show "\<forall>c\<in>set cs. 0 < length c \<and> length c \<le> 2000"
    using chunks_of_bounds [of _ 2000 ctext] by (auto simp: cs_def)
  show "concat cs = ctext"
    by (simp add: cs_def concat_chunks_of)
  have run: "text_handler env m b w = (fst (text_handler env m b w), w')"
    by (simp add: w'_def)
  from text_handler_effect [OF run]
  show "\<exists>new. calls w' = calls w @ new \<and> length new \<le> length cs \<and>
       map fst new = map (\<lambda>c. DcSend (channelId b) c None) (take (length new) cs) \<and>
       (\<forall>x\<in>set (butlast new). snd x = None)"
    unfolding cs_def ctext_def by blast
  from text_handler_effect [OF run]
  show "\<forall>k. k \<noteq> message_id m \<longrightarrow> messageMap w' k = messageMap w k"
    by blast
next
  assume ok: "dc_ready env = None \<and> dc_channels env (channelId b) \<and>
     sent_ids env (calls w) (channelId b) cs = Some ids"
  show "calls w' = calls w @ map (\<lambda>c. (DcSend (channelId b) c None, None)) cs"
  proof (cases "ctext = []")
    case True
    with ok show ?thesis
      by (simp add: w'_def cs_def ctext_def text_handler_unfold chunks_of_Nil)
  next
    case False
    then have "cs \<noteq> []" by (simp add: cs_def chunks_of_nonempty)
    with ok False send_chunks_accepted [of env w "channelId b" cs ids None] show ?thesis
      by (simp add: w'_def cs_def ctext_def text_handler_unfold channels_get_def)
  qed
  show "messageMap w' =
         (if cs = [] then messageMap w else (messageMap w)(message_id m \<mapsto> last ids))"
  proof (cases "ctext = []")
    case True
    with ok show ?thesis
      by (simp add: w'_def cs_def ctext_def text_handler_unfold chunks_of_Nil)
  next
    case False
    then have "cs \<noteq> []" by (simp add: cs_def chunks_of_nonempty)
    with ok False send_chunks_accepted [of env w "channelId b" cs ids None] show ?thesis
      by (simp add: w'_def cs_def ctext_def text_handler_unfold channels_get_def)
  qed
qed

lemma ex_chunks:
  "chunks_of 2000 (replicate 2001 CHR ''a'') = [replicate 2000 CHR ''a'', ''a'']"
  by (simp add: chunks_of_step chunks_of_Nil)

theorem text_relay_chunks_witness:
  "dc_ready ex_env = None \<and> dc_channels ex_env (channelId ex_bridge) \<and>
   sent_ids ex_env (calls ex_world) (channelId ex_bridge)
     (chunks_of 2000 (composed (messageConverter ex_env
        (ex_message\<lparr>msg_text := Some (replicate 2001 CHR ''a'')\<rparr>) ex_bridge))) = Some [''9'', ''99''] \<and>
   calls (snd (text_handler ex_env (ex_message\<lparr>msg_text := Some (replicate 2001 CHR ''a'')\<rparr>)
      ex_bridge ex_world)) =
     [(DcSend ''412'' (replicate 2000 CHR ''a'') None, None), (DcSend ''412'' ''a'' None, None)] \<and>
   messageMap (snd (text_handler ex_env (ex_message\<lparr>msg_text := Some (replicate 2001 CHR ''a'')\<rparr>)
      ex_bridge ex_world)) = [7 \<mapsto> ''99'']"
proof -
  have c: "composed (messageConverter ex_env
        (ex_message\<lparr>msg_text := Some (replicate 2001 CHR ''a'')\<rparr>) ex_bridge) = replicate 2001 CHR ''a''"
    by (simp add: ex_env_def js_undefined_def)
  have h: "dc_ready ex_env = None \<and> dc_channels ex_env (channelId ex_bridge) \<and>
   sent_ids ex_env (calls ex_world) (channelId ex_bridge)
     (chunks_of 2000 (composed (messageConverter ex_env
        (ex_message\<lparr>msg_text := Some (replicate 2001 CHR ''a'')\<rparr>) ex_bridge))) = Some [''9'', ''99'']"
    unfolding c ex_chunks by (simp add: ex_env_def ex_bridge_def ex_world_def)
  from h text_relay_chunks [of ex_env "ex_message\<lparr>msg_text := Some (replicate 2001 CHR ''a'')\<rparr>"
      ex_bridge ex_world "[''9'', ''99'']"]
  show ?thesis
    unfolding c ex_chunks by (simp add: ex_world_def ex_bridge_def ex_message_def)
qed

section \<open>The edit handler\<close>

lemma edited_message_handler_unfold:
  "edited_message_handler env m b w =
     (case dc_ready env of
        Some err \<Rightarrow> (Inr (), w\<lparr>logged := logged w @ [edit_log b err]\<rparr>)
      | None \<Rightarrow>
          (case messageMap w (message_id m) of
             None \<Rightarrow> (Inr (), w\<lparr>logged := logged w @ [edit_log b NoCorrespondence]\<rparr>)
           | Some d \<Rightarrow>
               if \<not> dc_channels env (channelId b)
               then (Inr (), w\<lparr>logged := logged w @ [edit_log b TypeError]\<rparr>)
               else
                 (case dc_fetch_result env (calls w) (DcFetchMessage (channelId b) d) of
                    Some err \<Rightarrow>
                      (Inr (), w\<lparr>calls := calls w @ [(DcFetchMessage (channelId b) d, Some err)],
                                 logged := logged w @ [edit_log b err]\<rparr>)
                  | None \<Rightarrow>
                      (case dc_edit_result env (calls w @ [(DcFetchMessage (channelId b) d, None)])
                              (DcEdit (channelId b) d (composed (messageConverter env m b))) of
                         None \<Rightarrow>
                           (Inr (), w\<lparr>calls := calls w @
                              [(DcFetchMessage (channelId b) d, None),
                               (DcEdit (channelId b) d (composed (messageConverter env m b)), None)]\<rparr>)
                       | Some err \<Rightarrow>
                           (Inr (), w\<lparr>calls := calls w @
                              [(DcFetchMessage (channelId b) d, None),
                               (DcEdit (channelId b) d (composed (messageConverter env m b)), Some err)],
                              logged := logged w @ [edit_log b err]\<rparr>)))))"
  by (simp add: edited_message_handler_def Let_def try_catch_def await_def dc_ready_wait_def
      unit_result_def throw_def getCorresponding_def channels_get_def dc_fetchMessage_eq
      dc_edit_eq record_call_def log_failure_def logger_error_def edit_log_def
      split: option.splits)

text \<open>
  C2. An edit event for a source message id with an entry in the message map, on a ready
  Discord that knows the channel and finds the destination message, makes one fetch of
  that message and then exactly one edit call on it, with the whole freshly composed
  text. Whatever Discord does, the handler makes no other call than that fetch and,
  after it has succeeded, that one edit. An edit event for a source message id with no
  entry makes no call at all, logs exactly one line and ends normally; the map is
  unchanged and nothing is tried again.
\<close>

theorem edit_relay:
  fixes env :: env and m :: message and b :: bridge and w :: world
  defines "w' \<equiv> snd (edited_message_handler env m b w)"
  shows
   "(messageMap w (message_id m) = Some d \<and> dc_ready env = None \<and>
     dc_channels env (channelId b) \<and>
     dc_fetch_result env (calls w) (DcFetchMessage (channelId b) d) = None \<longrightarrow>
       (\<exists>r. new_calls w w' =
          [(DcFetchMessage (channelId b) d, None),
           (DcEdit (channelId b) d (composed (messageConverter env m b)), r)])) \<and>
    (messageMap w (message_id m) = Some d \<longrightarrow>
       (\<exists>err r. new_calls w w' = [] \<or>
            new_calls w w' = [(DcFetchMessage (channelId b) d, Some err)] \<or>
            new_calls w w' =
              [(DcFetchMessage (channelId b) d, None),
               (DcEdit (channelId b) d (composed (messageConverter env m b)), r)])) \<and>
    (messageMap w (message_id m) = None \<longrightarrow>
       calls w' = calls w \<and>
       (\<exists>err. new_logged w w' = [(bracket b '' Could not edit Discord message:'', [LogErr err])]) \<and>
       messageMap w' = messageMap w \<and>
       fst (edited_message_handler env m b w) = Inr ())"
proof (intro conjI impI)
  assume entry: "messageMap w (message_id m) = Some d"
  show "\<exists>err r. new_calls w w' = [] \<or>
            new_calls w w' = [(DcFetchMessage (channelId b) d, Some err)] \<or>
            new_calls w w' =
              [(DcFetchMessage (channelId b) d, None),
               (DcEdit (channelId b) d (composed (messageConverter env m b)), r)]"
  proof (cases "dc_ready env = None \<and> dc_channels env (channelId b)")
    case False
    with entry have "new_calls w w' = []"
      by (cases "dc_ready env")
         (auto simp: w'_def edited_message_handler_unfold new_calls_def)
    then show ?thesis by simp
  next
    case True
    show ?thesis
    proof (cases "dc_fetch_result env (calls w) (DcFetchMessage (channelId b) d)")
      case (Some err)
      with entry True have "new_calls w w' = [(DcFetchMessage (channelId b) d, Some err)]"
        by (simp add: w'_def edited_message_handler_unfold)
      then show ?thesis by blast
    next
      case None
      with entry True have "\<exists>r. new_calls w w' =
              [(DcFetchMessage (channelId b) d, None),
               (DcEdit (channelId b) d (composed (messageConverter env m b)), r)]"
        by (cases "dc_edit_result env (calls w @ [(DcFetchMessage (channelId b) d, None)])
                  (DcEdit (channelId b) d (composed (messageConverter env m b)))")
           (simp_all add: w'_def edited_message_handler_unfold)
      then show ?thesis by blast
    qed
  qed
next
  assume hit: "messageMap w (message_id m) = Some d \<and> dc_ready env = None \<and>
     dc_channels env (channelId b) \<and>
     dc_fetch_result env (calls w) (DcFetchMessage (channelId b) d) = None"
  show "\<exists>r. new_calls w w' =
          [(DcFetchMessage (channelId b) d, None),
           (DcEdit (channelId b) d (composed (messageConverter env m b)), r)]"
  proof (cases "dc_edit_result env (calls w @ [(DcFetchMessage (channelId b) d, None)])
                  (DcEdit (channelId b) d (composed (messageConverter env m b)))")
    case None
    with hit show ?thesis
      by (simp add: w'_def edited_message_handler_unfold)
  next
    case (Some err)
    with hit show ?thesis
      by (simp add: w'_def edited_message_handler_unfold)
  qed
next
  assume miss: "messageMap w (message_id m) = None"
  then show "calls w' = calls w"
    by (simp add: w'_def edited_message_handler_unfold split: option.splits)
  from miss show "\<exists>err. new_logged w w' = [(bracket b '' Could not edit Discord message:'', [LogErr err])]"
    by (simp add: w'_def edited_message_handler_unfold edit_log_def split: option.splits)
  from miss show "messageMap w' = messageMap w"
    by (simp add: w'_def edited_message_handler_unfold split: option.splits)
  from miss show "fst (edited_message_handler env m b w) = Inr ()"
    by (simp add: edited_message_handler_unfold split: option.splits)
qed

theorem edit_relay_witness:
  "messageMap (ex_world\<lparr>messageMap := [7 \<mapsto> ''55'']\<rparr>) (message_id ex_message) = Some ''55'' \<and>
   dc_ready ex_env = None \<and> dc_channels ex_env (channelId ex_bridge) \<and>
   dc_fetch_result ex_env (calls (ex_world\<lparr>messageMap := [7 \<mapsto> ''55'']\<rparr>))
     (DcFetchMessage (channelId ex_bridge) ''55'') = None \<and>
   new_calls (ex_world\<lparr>messageMap := [7 \<mapsto> ''55'']\<rparr>)
     (snd (edited_message_handler ex_env (ex_message\<lparr>msg_text := Some ''edited''\<rparr>) ex_bridge
        (ex_world\<lparr>messageMap := [7 \<mapsto> ''55'']\<rparr>))) =
     [(DcFetchMessage ''412'' ''55'', None), (DcEdit ''412'' ''55'' ''edited'', None)] \<and>
   messageMap ex_world (message_id ex_message) = None \<and>
   calls (snd (edited_message_handler ex_env (ex_message\<lparr>msg_text := Some ''edited''\<rparr>) ex_bridge
        ex_world)) = [] \<and>
   new_logged ex_world
     (snd (edited_message_handler ex_env (ex_message\<lparr>msg_text := Some ''edited''\<rparr>) ex_bridge ex_world)) =
     [(''[Default bridge] Could not edit Discord message:'', [LogErr NoCorrespondence])]"
  using edit_relay [of "ex_world\<lparr>messageMap := [7 \<mapsto> ''55'']\<rparr>"
      "ex_message\<lparr>msg_text := Some ''edited''\<rparr>" "''55''" ex_env ex_bridge]
    edit_relay [of ex_world "ex_message\<lparr>msg_text := Some ''edited''\<rparr>" "''55''" ex_env ex_bridge]
  by (simp add: ex_world_def ex_message_def ex_env_def ex_bridge_def js_undefined_def
      edited_message_handler_unfold edit_log_def bracket_def new_calls_def new_logged_def)

section \<open>The wrapper\<close>


lemma chatinfo_run:
  assumes "ctx_canonical c = Some m" and "is_chatinfo w m"
  shows "createMessageHandler env func c w =
      (unit_result (tg_sendMessage_result env (calls w) (chatinfo_call m)),
       w\<lparr>calls := calls w @ [(chatinfo_call m, tg_sendMessage_result env (calls w) (chatinfo_call m))]\<rparr>)"
  using assms
  by (simp add: createMessageHandler_def tg_sendMessage_eq record_call_def chatinfo_call_def)

lemma bridged_run:
  assumes "ctx_canonical c = Some m" and "\<not> is_chatinfo w m"
    and "fromTelegramChatId env (chat_id m) = Some b"
  shows "createMessageHandler env func c w =
      (if direction b \<noteq> DIRECTION_DISCORD_TO_TELEGRAM then func m b w else (Inr (), w))"
  using assms by (simp add: createMessageHandler_def)

lemma ex_toLower: "toLowerCase ''@tedibot ChatInfo'' = ''@tedibot chatinfo''"
  by code_simp

lemma ex_toLower2: "toLowerCase ''@TediBot chatinfo'' = ''@tedibot chatinfo''"
  by code_simp

lemma ex_toLower3: "toLowerCase ''hello'' = ''hello''"
  by code_simp

lemma ex_str: "string_of_int 5 = ''5''" "string_of_int (- 100) = ''-100''"
  by code_simp+

lemma ex_not_chatinfo: "\<not> is_chatinfo ex_world ex_hello"
  by (simp add: is_chatinfo_def ex_world_def ex_hello_def ex_message_def js_undefined_def
      ex_toLower2 ex_toLower3)

lemma ex_is_chatinfo: "is_chatinfo ex_world ex_chatinfo"
  by (simp add: is_chatinfo_def ex_world_def ex_chatinfo_def ex_message_def js_undefined_def
      ex_toLower2 ex_toLower)

text \<open>
  C3, as amended. For an update that is not the chat-info command and whose chat has no
  bridge, the wrapper sends exactly one message, the advisory notice, to that chat; the
  wrapped handler is not called; when the send fails, one line is logged and the wrapper
  still ends normally.
\<close>

theorem unbridged_advisory:
  assumes "ctx_canonical c = Some m" and "\<not> is_chatinfo w m"
    and "fromTelegramChatId env (chat_id m) = None"
  shows "createMessageHandler env func c w =
      (Inr (),
       w\<lparr>calls := calls w @ [(advisory_call m, tg_sendMessage_result env (calls w) (advisory_call m))],
         logged := logged w @ advisory_log m (tg_sendMessage_result env (calls w) (advisory_call m))\<rparr>)"
  using assms
  by (simp add: createMessageHandler_def tg_sendMessage_eq record_call_def advisory_call_def
      try_catch_def unit_result_def advisory_log_def logger_error_def split: option.splits)

theorem unbridged_advisory_witness:
  "ctx_canonical (ex_ctx (ex_hello\<lparr>chat_id := 5\<rparr>)) = Some (ex_hello\<lparr>chat_id := 5\<rparr>) \<and>
   \<not> is_chatinfo ex_world (ex_hello\<lparr>chat_id := 5\<rparr>) \<and>
   fromTelegramChatId ex_env (chat_id (ex_hello\<lparr>chat_id := 5\<rparr>)) = None \<and>
   on_update ex_env (On_text, ex_ctx (ex_hello\<lparr>chat_id := 5\<rparr>)) ex_world =
     (Inr (), ex_world\<lparr>calls := [(TgSendMessage 5 advisory_text (Some ''markdown''), None)]\<rparr>)"
proof -
  have h1: "ctx_canonical (ex_ctx (ex_hello\<lparr>chat_id := 5\<rparr>)) = Some (ex_hello\<lparr>chat_id := 5\<rparr>)"
    by (simp add: ctx_canonical_def ex_ctx_def)
  have h2: "\<not> is_chatinfo ex_world (ex_hello\<lparr>chat_id := 5\<rparr>)"
    using ex_not_chatinfo by (simp add: is_chatinfo_def)
  have h3: "fromTelegramChatId ex_env (chat_id (ex_hello\<lparr>chat_id := 5\<rparr>)) = None"
    by (simp add: ex_env_def)
  from unbridged_advisory [OF h1 h2 h3, of "handler_of ex_env On_text"] h1 h2 h3
  show ?thesis
    by (simp add: on_update_def advisory_call_def advisory_log_def ex_env_def ex_world_def)
qed

text \<open>
  The chat-info command from a chat with no bridge: the reply is the chat id, and the
  advisory notice is not sent.
\<close>

theorem unbridged_advisory_counterexample:
  "fromTelegramChatId ex_env (chat_id ex_chatinfo) = None \<and>
   ctx_canonical (ex_ctx ex_chatinfo) = Some ex_chatinfo \<and>
   new_calls ex_world (snd (on_update ex_env (On_text, ex_ctx ex_chatinfo) ex_world)) =
     [(TgSendMessage 5 ''chatID: 5'' None, None)] \<and>
   advisory_call ex_chatinfo \<notin>
     fst ` set (new_calls ex_world (snd (on_update ex_env (On_text, ex_ctx ex_chatinfo) ex_world)))"
proof -
  have h1: "ctx_canonical (ex_ctx ex_chatinfo) = Some ex_chatinfo"
    by (simp add: ctx_canonical_def ex_ctx_def)
  have c: "chat_id ex_chatinfo = 5"
    by (simp add: ex_chatinfo_def)
  have run: "on_update ex_env (On_text, ex_ctx ex_chatinfo) ex_world =
     (Inr (), ex_world\<lparr>calls := [(TgSendMessage 5 ''chatID: 5'' None, None)]\<rparr>)"
    using ex_is_chatinfo
    by (simp add: on_update_def createMessageHandler_def h1 c tg_sendMessage_eq ex_str
        record_call_def unit_result_def ex_env_def ex_world_def)
  have h3: "fromTelegramChatId ex_env 5 = None"
    by (simp add: ex_env_def)
  have e: "calls ex_world = []"
    by (simp add: ex_world_def)
  show ?thesis
    by (simp add: run h1 h3 c e new_calls_def advisory_call_def)
qed

text \<open>
  C4, as amended. When the bridge of an update's chat has direction Discord-to-Telegram
  only, the wrapped handler is never called: the outcome is the same whichever handler is
  wrapped. When the update is not the chat-info command, nothing is sent and nothing is
  logged: the state is unchanged.
\<close>

theorem direction_forbidden_drop:
  assumes "ctx_canonical c = Some m"
    and "fromTelegramChatId env (chat_id m) = Some b"
    and "direction b = DIRECTION_DISCORD_TO_TELEGRAM"
  shows "createMessageHandler env func c w = createMessageHandler env func' c w \<and>
    (\<not> is_chatinfo w m \<longrightarrow> createMessageHandler env func c w = (Inr (), w))"
  using assms by (simp add: createMessageHandler_def)

theorem direction_forbidden_drop_witness:
  "ctx_canonical (ex_ctx ex_hello) = Some ex_hello \<and>
   fromTelegramChatId ex_one_way (chat_id ex_hello) =
     Some (ex_bridge\<lparr>direction := DIRECTION_DISCORD_TO_TELEGRAM\<rparr>) \<and>
   direction (ex_bridge\<lparr>direction := DIRECTION_DISCORD_TO_TELEGRAM\<rparr>) = DIRECTION_DISCORD_TO_TELEGRAM \<and>
   \<not> is_chatinfo ex_world ex_hello \<and>
   on_update ex_one_way (On_text, ex_ctx ex_hello) ex_world = (Inr (), ex_world) \<and>
   on_update ex_one_way (On_photo, ex_ctx ex_hello) ex_world = (Inr (), ex_world)"
proof -
  have h1: "ctx_canonical (ex_ctx ex_hello) = Some ex_hello"
    by (simp add: ctx_canonical_def ex_ctx_def)
  have h3: "fromTelegramChatId ex_one_way (chat_id ex_hello) =
     Some (ex_bridge\<lparr>direction := DIRECTION_DISCORD_TO_TELEGRAM\<rparr>)"
    by (simp add: ex_one_way_def)
  have h4: "direction (ex_bridge\<lparr>direction := DIRECTION_DISCORD_TO_TELEGRAM\<rparr>) =
     DIRECTION_DISCORD_TO_TELEGRAM"
    by simp
  note t = direction_forbidden_drop [OF h1 h3 h4, of "handler_of ex_one_way On_text" ex_world
      "handler_of ex_one_way On_photo"]
  from t [THEN conjunct2] ex_not_chatinfo
  have a: "on_update ex_one_way (On_text, ex_ctx ex_hello) ex_world = (Inr (), ex_world)"
    by (simp add: on_update_def)
  from t [THEN conjunct1] have "on_update ex_one_way (On_photo, ex_ctx ex_hello) ex_world =
      on_update ex_one_way (On_text, ex_ctx ex_hello) ex_world"
    by (simp add: on_update_def)
  with a h1 h3 ex_not_chatinfo show ?thesis by simp
qed

text \<open>
  The chat-info command from a chat whose bridge is Discord-to-Telegram only: the reply
  with the chat id is sent to the chat.
\<close>

theorem direction_forbidden_drop_counterexample:
  "fromTelegramChatId ex_one_way (chat_id (ex_chatinfo\<lparr>chat_id := - 100\<rparr>)) =
     Some (ex_bridge\<lparr>direction := DIRECTION_DISCORD_TO_TELEGRAM\<rparr>) \<and>
   ctx_canonical (ex_ctx (ex_chatinfo\<lparr>chat_id := - 100\<rparr>)) = Some (ex_chatinfo\<lparr>chat_id := - 100\<rparr>) \<and>
   on_update ex_one_way (On_text, ex_ctx (ex_chatinfo\<lparr>chat_id := - 100\<rparr>)) ex_world =
     (Inr (), ex_world\<lparr>calls := [(TgSendMessage (- 100) ''chatID: -100'' None, None)]\<rparr>)"
proof -
  have h1: "ctx_canonical (ex_ctx (ex_chatinfo\<lparr>chat_id := - 100\<rparr>)) =
      Some (ex_chatinfo\<lparr>chat_id := - 100\<rparr>)"
    by (simp add: ctx_canonical_def ex_ctx_def)
  have h2: "is_chatinfo ex_world (ex_chatinfo\<lparr>chat_id := - 100\<rparr>)"
    using ex_is_chatinfo by (simp add: is_chatinfo_def)
  have h3: "fromTelegramChatId ex_one_way (- 100) =
     Some (ex_bridge\<lparr>direction := DIRECTION_DISCORD_TO_TELEGRAM\<rparr>)"
    by (simp add: ex_one_way_def)
  have r: "tg_sendMessage_result ex_one_way tr c = None" for tr c
    by (simp add: ex_one_way_def ex_env_def)
  have e: "calls ex_world = []"
    by (simp add: ex_world_def)
  from chatinfo_run [OF h1 h2, of ex_one_way "handler_of ex_one_way On_text"] h1 h3
  show ?thesis
    by (simp add: on_update_def chatinfo_call_def ex_str r e unit_result_def)
qed

text \<open>
  C9, as amended. Once \<^verbatim>\<open>tgBot.telegram.me\<close> is set, when the text of an update
  equals, up to the case of letters, the command \<^verbatim>\<open>@<username of the bot> chatinfo\<close>,
  the wrapper sends to the same chat the text \<^verbatim>\<open>chatID: \<close> followed by the chat id, and
  nothing else happens: the outcome is the same for every bridge registry and every
  wrapped handler, so no bridge is resolved and no handler runs, in a bridged chat as in
  any other.
\<close>

theorem chatinfo_reply:
  assumes "ctx_canonical c = Some m" and "msg_text m = Some t" and "me w = Some self"
    and "toLowerCase t = toLowerCase (''@'' @ js_undefined (username self) @ '' chatinfo'')"
  shows "createMessageHandler env func c w =
      (unit_result (tg_sendMessage_result env (calls w) (chatinfo_call m)),
       w\<lparr>calls := calls w @ [(chatinfo_call m, tg_sendMessage_result env (calls w) (chatinfo_call m))]\<rparr>)
    \<and> chatinfo_call m = TgSendMessage (chat_id m) (''chatID: '' @ string_of_int (chat_id m)) None
    \<and> createMessageHandler (env\<lparr>fromTelegramChatId := registry\<rparr>) func' c w =
        createMessageHandler env func c w"
  using assms
  by (simp add: createMessageHandler_def is_chatinfo_def tg_sendMessage_eq record_call_def
      chatinfo_call_def)

theorem chatinfo_reply_witness:
  "ctx_canonical (ex_ctx ex_chatinfo) = Some ex_chatinfo \<and>
   msg_text ex_chatinfo = Some ''@tedibot ChatInfo'' \<and>
   me ex_world = Some \<lparr>first_name = ''TediCross'', last_name = None, username = Some ''TediBot''\<rparr> \<and>
   toLowerCase ''@tedibot ChatInfo'' = toLowerCase (''@'' @ ''TediBot'' @ '' chatinfo'') \<and>
   fromTelegramChatId ex_env (chat_id ex_chatinfo) = None \<and>
   on_update ex_env (On_text, ex_ctx ex_chatinfo) ex_world =
     (Inr (), ex_world\<lparr>calls := [(TgSendMessage 5 ''chatID: 5'' None, None)]\<rparr>)"
proof -
  have h1: "ctx_canonical (ex_ctx ex_chatinfo) = Some ex_chatinfo"
    by (simp add: ctx_canonical_def ex_ctx_def)
  have h2: "msg_text ex_chatinfo = Some ''@tedibot ChatInfo''"
    by (simp add: ex_chatinfo_def)
  have h3: "me ex_world =
      Some \<lparr>first_name = ''TediCross'', last_name = None, username = Some ''TediBot''\<rparr>"
    by (simp add: ex_world_def)
  have h4: "toLowerCase ''@tedibot ChatInfo'' =
      toLowerCase (''@'' @ js_undefined (username
        \<lparr>first_name = ''TediCross'', last_name = None, username = Some ''TediBot''\<rparr>) @ '' chatinfo'')"
    by (simp add: js_undefined_def ex_toLower ex_toLower2)
  have c: "chat_id ex_chatinfo = 5"
    by (simp add: ex_chatinfo_def)
  from chatinfo_reply [OF h1 h2 h3 h4, of ex_env "handler_of ex_env On_text"] h1 h2 h3 h4
  show ?thesis
    by (simp add: on_update_def chatinfo_call_def c ex_str ex_env_def unit_result_def
        ex_world_def js_undefined_def)
qed

text \<open>
  The same command, before \<^verbatim>\<open>tgBot.telegram.me\<close> is set: the wrapper does not know the
  bot's name, and the command from a chat with no bridge is answered with the advisory
  notice, not with the chat id.
\<close>

theorem chatinfo_reply_counterexample:
  "msg_text ex_chatinfo = Some ''@tedibot ChatInfo'' \<and>
   is_chatinfo ex_world ex_chatinfo \<and>
   me (ex_world\<lparr>me := None\<rparr>) = None \<and>
   on_update ex_env (On_text, ex_ctx ex_chatinfo) (ex_world\<lparr>me := None\<rparr>) =
     (Inr (), ex_world\<lparr>me := None,
        calls := [(TgSendMessage 5 advisory_text (Some ''markdown''), None)]\<rparr>)"
proof -
  have h1: "ctx_canonical (ex_ctx ex_chatinfo) = Some ex_chatinfo"
    by (simp add: ctx_canonical_def ex_ctx_def)
  have h2: "\<not> is_chatinfo (ex_world\<lparr>me := None\<rparr>) ex_chatinfo"
    by (simp add: is_chatinfo_def split: option.splits)
  have h3: "fromTelegramChatId ex_env (chat_id ex_chatinfo) = None"
    by (simp add: ex_env_def ex_chatinfo_def)
  have c: "chat_id ex_chatinfo = 5" "msg_text ex_chatinfo = Some ''@tedibot ChatInfo''"
    by (simp_all add: ex_chatinfo_def)
  have e: "tg_sendMessage_result ex_env tr x = None" "calls ex_world = []" "logged ex_world = []" for tr x
    by (simp_all add: ex_env_def ex_world_def)
  show ?thesis
    using ex_is_chatinfo h1 h2 h3
    by (simp add: on_update_def createMessageHandler_def c e try_catch_def tg_sendMessage_eq
        record_call_def unit_result_def)
qed

section \<open>Files\<close>

lemma split_dot_nonempty: "split_dot s \<noteq> []"
  by (induction s) (auto split: list.splits)

lemma sendFile_run:
  assumes "dc_ready env = None" and "dc_channels env (channelId b)"
    and "tg_getFile_result env (calls w) (TgGetFile fid) = Inr path"
    and "tg_getFileLink_result env (calls w @ [(TgGetFile fid, None)]) (TgGetFileLink fid) = Inr link"
    and "rx \<longrightarrow> path \<noteq> None"
  shows "\<exists>r. sendFile env b m fid fname cap rx w =
     (unit_result r,
      w\<lparr>calls := calls w @
         file_relay fid (channelId b) (textToSend (messageConverter env m b) cap) link
           (js_undefined fname @ (if rx then ''.'' @ last (split_dot (the path)) else [])) r\<rparr>)"
proof -
  let ?w = "w\<lparr>calls := calls w @ [(TgGetFile fid, None), (TgGetFileLink fid, None)]\<rparr>"
  let ?name = "js_undefined fname @ (if rx then ''.'' @ last (split_dot (the path)) else [])"
  let ?c = "DcSend (channelId b) (textToSend (messageConverter env m b) cap) (Some (link, ?name))"
  from assms have start: "sendFile env b m fid fname cap rx w =
      pass_on env b (textToSend (messageConverter env m b) cap) fname rx path link ?w"
    by (simp add: sendFile_def Let_def await_def dc_ready_wait_def unit_result_def promise_all_def
        tg_getFile_eq tg_getFileLink_eq record_call_def failure_of_def)
  from assms(5) have ext: "resolve_extension rx path ?w =
      (Inr (if rx then ''.'' @ last (split_dot (the path)) else []), ?w)"
    by (auto simp: resolve_extension_def ok_def)
  show ?thesis
  proof (cases "download_result env (calls ?w) link")
    case (Some err)
    with assms(2) ext have "pass_on env b (textToSend (messageConverter env m b) cap) fname rx path link ?w =
        (Inl err, ?w\<lparr>calls := calls ?w @ [(?c, Some err)]\<rparr>)"
      by (simp add: pass_on_def Let_def request_def channels_get_def dc_send_file_def await_def
          record_call_def)
    then show ?thesis unfolding start
      by (intro exI [of _ "Some err"]) (simp add: unit_result_def file_relay_def)
  next
    case None
    show ?thesis
    proof (cases "dc_send_result env (calls ?w) ?c")
      case (Inl err)
      with None assms(2) ext have "pass_on env b (textToSend (messageConverter env m b) cap) fname rx path link ?w =
          (Inl err, ?w\<lparr>calls := calls ?w @ [(?c, Some err)]\<rparr>)"
        by (simp add: pass_on_def Let_def request_def channels_get_def dc_send_file_def await_def
            dc_send_eq record_call_def failure_of_def)
      then show ?thesis unfolding start
        by (intro exI [of _ "Some err"]) (simp add: unit_result_def file_relay_def)
    next
      case (Inr d)
      with None assms(2) ext have "pass_on env b (textToSend (messageConverter env m b) cap) fname rx path link ?w =
          (Inr (), ?w\<lparr>calls := calls ?w @ [(?c, None)]\<rparr>)"
        by (simp add: pass_on_def Let_def request_def channels_get_def dc_send_file_def await_def
            dc_send_eq record_call_def failure_of_def ok_def)
      then show ?thesis unfolding start
        by (intro exI [of _ None]) (simp add: unit_result_def file_relay_def)
    qed
  qed
qed

lemma try_catch_calls:
  "body w = (unit_result r, w\<lparr>calls := calls w @ new\<rparr>) \<Longrightarrow>
   new_calls w (snd (try_catch body (log_failure b what) w)) = new"
  by (cases r) (simp_all add: try_catch_def unit_result_def log_failure_def logger_error_def)

lemma ex_lookups:
  "dc_ready ex_env = None" "dc_channels ex_env ''412''" "channelId ex_bridge = ''412''"
  "tg_getFile_result ex_env tr (TgGetFile fid) = Inr (Some ''music/file_1.ogg'')"
  "tg_getFileLink_result ex_env tr' (TgGetFileLink fid) = Inr ''https://api.telegram.org/file/1''"
  by (simp_all add: ex_env_def ex_bridge_def)

lemma ex_sent:
  "dc_send_result ex_env tr c = Inr (replicate (Suc (length tr)) CHR ''9'')"
  "download_result ex_env tr link = None"
  by (simp_all add: ex_env_def)

lemma ex_sendFile:
  "sendFile ex_env ex_bridge m fid fname cap rx ex_world =
     (Inr (), ex_world\<lparr>calls :=
        file_relay fid ''412'' (textToSend (messageConverter ex_env m ex_bridge) cap)
          ''https://api.telegram.org/file/1''
          (js_undefined fname @ (if rx then ''.ogg'' else [])) None\<rparr>)"
proof -
  have p: "last (split_dot ''music/file_1.ogg'') = ''ogg''"
    by simp
  have c: "calls ex_world = []"
    by (simp add: ex_world_def)
  show ?thesis
    by (simp add: sendFile_def pass_on_def request_def dc_send_file_def Let_def await_def
        dc_ready_wait_def unit_result_def promise_all_def
        tg_getFile_eq tg_getFileLink_eq record_call_def failure_of_def resolve_extension_def
        ok_def throw_def channels_get_def dc_send_eq file_relay_def ex_lookups ex_sent p c)
qed

text \<open>
  C6, as amended. A sticker event whose sticker has a thumbnail, relayed on a ready
  Discord that knows the channel, once Telegram has answered the two file lookups:
  the file sent is the thumbnail's, under the name \<^verbatim>\<open>sticker.webp\<close>, and the text
  sent with it is the sender label followed by the sticker's emoji (by nothing when the
  sticker has none) if the setting \<^verbatim>\<open>settings.telegram.sendEmojiWithStickers\<close> of the
  whole process is on, and by nothing otherwise. No flag of the bridge is read.
\<close>

theorem sticker_relay:
  assumes "sticker m = Some s" and "thumb s = Some fid"
    and "dc_ready env = None" and "dc_channels env (channelId b)"
    and "tg_getFile_result env (calls w) (TgGetFile fid) = Inr path"
    and "tg_getFileLink_result env (calls w @ [(TgGetFile fid, None)]) (TgGetFileLink fid) = Inr link"
  shows "\<exists>r. new_calls w (snd (sticker_handler env m b w)) =
     [(TgGetFile fid, None), (TgGetFileLink fid, None),
      (DcSend (channelId b)
         (''**'' @ msg_from (messageConverter env m b) @ ''**:'' @ [CHR 0x0A] @
          (if sendEmojiWithStickers env then (case emoji s of None \<Rightarrow> [] | Some e \<Rightarrow> e) else []))
         (Some (link, ''sticker.webp'')), r)]"
proof -
  from sendFile_run [OF assms(3-6), of False m "Some ''sticker.webp''"
      "if sendEmojiWithStickers env then emoji s else None"]
  obtain r where "sendFile env b m fid (Some ''sticker.webp'')
        (if sendEmojiWithStickers env then emoji s else None) False w =
     (unit_result r,
      w\<lparr>calls := calls w @
         file_relay fid (channelId b)
           (textToSend (messageConverter env m b) (if sendEmojiWithStickers env then emoji s else None))
           link ''sticker.webp'' r\<rparr>)"
    by (auto simp: js_undefined_def)
  with assms(1,2) have "new_calls w (snd (sticker_handler env m b w)) =
      file_relay fid (channelId b)
           (textToSend (messageConverter env m b) (if sendEmojiWithStickers env then emoji s else None))
           link ''sticker.webp'' r"
    unfolding sticker_handler_def by (intro try_catch_calls) simp
  then show ?thesis
    by (intro exI [of _ r]) (simp add: file_relay_def textToSend_def)
qed

theorem sticker_relay_witness:
  "sticker ex_sticker = Some \<lparr>thumb = Some ''thumb1'', emoji = Some '':)''\<rparr> \<and>
   thumb \<lparr>thumb = Some ''thumb1'', emoji = Some '':)''\<rparr> = Some ''thumb1'' \<and>
   dc_ready (ex_env\<lparr>sendEmojiWithStickers := True\<rparr>) = None \<and>
   dc_channels (ex_env\<lparr>sendEmojiWithStickers := True\<rparr>) (channelId ex_bridge) \<and>
   tg_getFile_result (ex_env\<lparr>sendEmojiWithStickers := True\<rparr>) (calls ex_world) (TgGetFile ''thumb1'') =
     Inr (Some ''music/file_1.ogg'') \<and>
   tg_getFileLink_result (ex_env\<lparr>sendEmojiWithStickers := True\<rparr>)
     (calls ex_world @ [(TgGetFile ''thumb1'', None)]) (TgGetFileLink ''thumb1'') =
     Inr ''https://api.telegram.org/file/1'' \<and>
   (\<exists>r. new_calls ex_world
      (snd (sticker_handler (ex_env\<lparr>sendEmojiWithStickers := True\<rparr>) ex_sticker ex_bridge ex_world)) =
     [(TgGetFile ''thumb1'', None), (TgGetFileLink ''thumb1'', None),
      (DcSend ''412'' (''**Ann**:'' @ [CHR 0x0A] @ '':)'')
         (Some (''https://api.telegram.org/file/1'', ''sticker.webp'')), r)])"
proof -
  let ?env = "ex_env\<lparr>sendEmojiWithStickers := True\<rparr>"
  have h1: "sticker ex_sticker = Some \<lparr>thumb = Some ''thumb1'', emoji = Some '':)''\<rparr>"
    by (simp add: ex_sticker_def)
  have h2: "thumb \<lparr>thumb = Some ''thumb1'', emoji = Some '':)''\<rparr> = Some ''thumb1''"
    by simp
  have h3: "dc_ready ?env = None" and h4: "dc_channels ?env (channelId ex_bridge)"
    by (simp_all add: ex_lookups)
  have h5: "tg_getFile_result ?env (calls ex_world) (TgGetFile ''thumb1'') =
     Inr (Some ''music/file_1.ogg'')"
    by (simp add: ex_lookups)
  have h6: "tg_getFileLink_result ?env (calls ex_world @ [(TgGetFile ''thumb1'', None)])
     (TgGetFileLink ''thumb1'') = Inr ''https://api.telegram.org/file/1''"
    by (simp add: ex_lookups)
  have e: "msg_from (messageConverter ex_env ex_sticker ex_bridge) = ''Ann''"
    by (simp add: ex_env_def)
  from sticker_relay [OF h1 h2 h3 h4 h5 h6] h1 h2 h3 h4 h5 h6
  show ?thesis by (simp add: e ex_lookups)
qed

text \<open>
  The flag of the bridge is on and the setting of the process is off: the text sent with
  the sticker ends after the sender label, without the sticker's emoji.
\<close>

theorem sticker_relay_counterexample:
  "bridge_sendEmojiWithStickers ex_bridge \<and>
   sticker ex_sticker = Some \<lparr>thumb = Some ''thumb1'', emoji = Some '':)''\<rparr> \<and>
   new_calls ex_world (snd (sticker_handler ex_env ex_sticker ex_bridge ex_world)) =
     [(TgGetFile ''thumb1'', None), (TgGetFileLink ''thumb1'', None),
      (DcSend ''412'' (''**Ann**:'' @ [CHR 0x0A])
         (Some (''https://api.telegram.org/file/1'', ''sticker.webp'')), None)]"
proof -
  have s: "sendEmojiWithStickers ex_env = False" "msg_from (messageConverter ex_env m ex_bridge) = ''Ann''" for m
    by (simp_all add: ex_env_def)
  have c: "calls ex_world = []"
    by (simp add: ex_world_def)
  have b: "bridge_sendEmojiWithStickers ex_bridge"
    by (simp add: ex_bridge_def)
  show ?thesis
    by (simp add: sticker_handler_def ex_sticker_def try_catch_def ex_sendFile s b c new_calls_def
        file_relay_def textToSend_def js_undefined_def)
qed

text \<open>
  C7, as amended. On a ready Discord that knows the channel, once Telegram has answered
  the two file lookups: a voice event is sent under the name \<^verbatim>\<open>voice.\<close> followed by the
  extension \<^verbatim>\<open>mime.getExtension\<close> gives for the declared content type; an audio event is
  sent under the audio's title followed by a dot and the last dot-separated piece of the
  file path Telegram's server answered with, whatever the declared content type.
\<close>

theorem voice_audio_file_names:
  assumes "dc_ready env = None" and "dc_channels env (channelId b)"
    and "tg_getFile_result env (calls w) (TgGetFile fid) = Inr path"
    and "tg_getFileLink_result env (calls w @ [(TgGetFile fid, None)]) (TgGetFileLink fid) = Inr link"
  shows
   "(voice m = Some v \<and> voice_file_id v = fid \<longrightarrow>
      (\<exists>r. new_calls w (snd (voice_handler env m b w)) =
         file_relay fid (channelId b) (textToSend (messageConverter env m b) None) link
           (''voice.'' @ js_null (getExtension env (voice_mime_type v))) r)) \<and>
    (audio m = Some a \<and> audio_file_id a = fid \<and> path = Some p \<longrightarrow>
      (\<exists>r. new_calls w (snd (audio_handler env m b w)) =
         file_relay fid (channelId b) (textToSend (messageConverter env m b) None) link
           (js_undefined (title a) @ ''.'' @ last (split_dot p)) r))"
proof (intro conjI impI)
  assume v: "voice m = Some v \<and> voice_file_id v = fid"
  from sendFile_run [OF assms, of False m
      "Some (''voice'' @ ''.'' @ js_null (getExtension env (voice_mime_type v)))" None]
  obtain r where "sendFile env b m fid
        (Some (''voice'' @ ''.'' @ js_null (getExtension env (voice_mime_type v)))) None False w =
     (unit_result r,
      w\<lparr>calls := calls w @
         file_relay fid (channelId b) (textToSend (messageConverter env m b) None) link
           (''voice.'' @ js_null (getExtension env (voice_mime_type v))) r\<rparr>)"
    by (auto simp: js_undefined_def)
  with v have "new_calls w (snd (voice_handler env m b w)) =
      file_relay fid (channelId b) (textToSend (messageConverter env m b) None) link
           (''voice.'' @ js_null (getExtension env (voice_mime_type v))) r"
    unfolding voice_handler_def by (intro try_catch_calls) auto
  then show "\<exists>r. new_calls w (snd (voice_handler env m b w)) =
         file_relay fid (channelId b) (textToSend (messageConverter env m b) None) link
           (''voice.'' @ js_null (getExtension env (voice_mime_type v))) r"
    by blast
next
  assume a: "audio m = Some a \<and> audio_file_id a = fid \<and> path = Some p"
  then have "True \<longrightarrow> path \<noteq> None" by simp
  from sendFile_run [OF assms this, of m "title a" None]
  obtain r where "sendFile env b m fid (title a) None True w =
     (unit_result r,
      w\<lparr>calls := calls w @
         file_relay fid (channelId b) (textToSend (messageConverter env m b) None) link
           (js_undefined (title a) @ ''.'' @ last (split_dot p)) r\<rparr>)"
    using a by auto
  with a have "new_calls w (snd (audio_handler env m b w)) =
      file_relay fid (channelId b) (textToSend (messageConverter env m b) None) link
           (js_undefined (title a) @ ''.'' @ last (split_dot p)) r"
    unfolding audio_handler_def by (intro try_catch_calls) auto
  then show "\<exists>r. new_calls w (snd (audio_handler env m b w)) =
         file_relay fid (channelId b) (textToSend (messageConverter env m b) None) link
           (js_undefined (title a) @ ''.'' @ last (split_dot p)) r"
    by blast
qed

theorem voice_audio_file_names_witness:
  "dc_ready ex_env = None \<and> dc_channels ex_env (channelId ex_bridge) \<and>
   tg_getFile_result ex_env (calls ex_world) (TgGetFile ''v1'') = Inr (Some ''music/file_1.ogg'') \<and>
   tg_getFileLink_result ex_env (calls ex_world @ [(TgGetFile ''v1'', None)]) (TgGetFileLink ''v1'') =
     Inr ''https://api.telegram.org/file/1'' \<and>
   tg_getFile_result ex_env (calls ex_world) (TgGetFile ''a1'') = Inr (Some ''music/file_1.ogg'') \<and>
   tg_getFileLink_result ex_env (calls ex_world @ [(TgGetFile ''a1'', None)]) (TgGetFileLink ''a1'') =
     Inr ''https://api.telegram.org/file/1'' \<and>
   voice ex_voice = Some \<lparr>voice_file_id = ''v1'', voice_mime_type = Some ''audio/ogg''\<rparr> \<and>
   audio ex_audio =
     Some \<lparr>audio_file_id = ''a1'', title = Some ''Song'', audio_mime_type = Some ''audio/mpeg''\<rparr> \<and>
   (\<exists>r. new_calls ex_world (snd (voice_handler ex_env ex_voice ex_bridge ex_world)) =
      file_relay ''v1'' ''412'' (''**Ann**:'' @ [CHR 0x0A]) ''https://api.telegram.org/file/1''
        ''voice.oga'' r) \<and>
   (\<exists>r. new_calls ex_world (snd (audio_handler ex_env ex_audio ex_bridge ex_world)) =
      file_relay ''a1'' ''412'' (''**Ann**:'' @ [CHR 0x0A]) ''https://api.telegram.org/file/1''
        ''Song.ogg'' r)"
proof -
  have h1: "dc_ready ex_env = None" and h2: "dc_channels ex_env (channelId ex_bridge)"
    by (simp_all add: ex_lookups)
  have v3: "tg_getFile_result ex_env (calls ex_world) (TgGetFile ''v1'') = Inr (Some ''music/file_1.ogg'')"
    and v4: "tg_getFileLink_result ex_env (calls ex_world @ [(TgGetFile ''v1'', None)])
      (TgGetFileLink ''v1'') = Inr ''https://api.telegram.org/file/1''"
    and a3: "tg_getFile_result ex_env (calls ex_world) (TgGetFile ''a1'') = Inr (Some ''music/file_1.ogg'')"
    and a4: "tg_getFileLink_result ex_env (calls ex_world @ [(TgGetFile ''a1'', None)])
      (TgGetFileLink ''a1'') = Inr ''https://api.telegram.org/file/1''"
    by (simp_all add: ex_lookups)
  have v: "voice ex_voice = Some \<lparr>voice_file_id = ''v1'', voice_mime_type = Some ''audio/ogg''\<rparr>"
    by (simp add: ex_voice_def)
  have a: "audio ex_audio =
     Some \<lparr>audio_file_id = ''a1'', title = Some ''Song'', audio_mime_type = Some ''audio/mpeg''\<rparr>"
    by (simp add: ex_audio_def)
  have e: "textToSend (messageConverter ex_env m ex_bridge) None = ''**Ann**:'' @ [CHR 0x0A]"
    "getExtension ex_env (Some ''audio/ogg'') = Some ''oga''"
    "last (split_dot ''music/file_1.ogg'') = ''ogg''" for m
    by (simp_all add: ex_env_def textToSend_def ex_mime_def)
  from voice_audio_file_names [OF h1 h2 v3 v4, of ex_voice
      "\<lparr>voice_file_id = ''v1'', voice_mime_type = Some ''audio/ogg''\<rparr>"]
    voice_audio_file_names [OF h1 h2 a3 a4, of ex_audio _
      "\<lparr>audio_file_id = ''a1'', title = Some ''Song'', audio_mime_type = Some ''audio/mpeg''\<rparr>"
      "''music/file_1.ogg''"]
    h1 h2 v3 v4 a3 a4 v a
  show ?thesis
    by (simp add: e ex_lookups js_null_def js_undefined_def)
qed

text \<open>
  An audio event with the title \<^verbatim>\<open>Song\<close> and the declared content type
  \<^verbatim>\<open>audio/mpeg\<close>, whose extension is \<^verbatim>\<open>mp3\<close>: the file is sent as \<^verbatim>\<open>Song.ogg\<close>, the
  title and the extension of the path on Telegram's server.
\<close>

theorem voice_audio_file_names_counterexample:
  "audio ex_audio =
     Some \<lparr>audio_file_id = ''a1'', title = Some ''Song'', audio_mime_type = Some ''audio/mpeg''\<rparr> \<and>
   getExtension ex_env (Some ''audio/mpeg'') = Some ''mp3'' \<and>
   new_calls ex_world (snd (audio_handler ex_env ex_audio ex_bridge ex_world)) =
     [(TgGetFile ''a1'', None), (TgGetFileLink ''a1'', None),
      (DcSend ''412'' (''**Ann**:'' @ [CHR 0x0A])
         (Some (''https://api.telegram.org/file/1'', ''Song.ogg'')), None)]"
proof -
  have e: "textToSend (messageConverter ex_env m ex_bridge) None = ''**Ann**:'' @ [CHR 0x0A]"
    "getExtension ex_env (Some ''audio/mpeg'') = Some ''mp3''" for m
    by (simp_all add: ex_env_def textToSend_def ex_mime_def)
  have c: "calls ex_world = []"
    by (simp add: ex_world_def)
  show ?thesis
    by (simp add: audio_handler_def ex_audio_def try_catch_def ex_sendFile e c new_calls_def
        file_relay_def js_undefined_def)
qed

section \<open>Joining\<close>







section \<open>Failures stay inside the handlers\<close>

lemma quiet_ok: "quiet w (ok x w)"
  by (simp add: quiet_def ok_def)

lemma quiet_throw: "quiet w (throw err w)"
  by (simp add: quiet_def throw_def)

lemma quiet_await:
  assumes m: "quiet w (m w)" and k: "\<And>x w1. quiet w1 (k x w1)"
  shows "quiet w (await m k w)"
proof (cases "m w")
  case (Pair r w1)
  show ?thesis
  proof (cases r)
    case (Inl err)
    with Pair m show ?thesis by (auto simp: await_def quiet_def)
  next
    case (Inr x)
    with Pair m obtain new1 where n1: "calls w1 = calls w @ new1" "\<forall>x\<in>set new1. snd x = None"
      and f1: "logged w1 = logged w" "messageMap w1 = messageMap w" "me w1 = me w"
      by (auto simp: quiet_def)
    from k [of w1 x] obtain new2 where
      n2: "calls (snd (k x w1)) = calls w1 @ new2"
        "(\<exists>x\<in>set new2. snd x \<noteq> None) \<longrightarrow> (\<exists>err. fst (k x w1) = Inl err)"
      and f2: "logged (snd (k x w1)) = logged w1" "messageMap (snd (k x w1)) = messageMap w1"
        "me (snd (k x w1)) = me w1"
      by (auto simp: quiet_def)
    have a: "await m k w = k x w1" using Pair Inr by (simp add: await_def)
    have "calls (snd (k x w1)) = calls w @ (new1 @ new2)" using n1 n2 by simp
    moreover have "(\<exists>x\<in>set (new1 @ new2). snd x \<noteq> None) \<longrightarrow> (\<exists>err. fst (k x w1) = Inl err)"
      using n1(2) n2(2) by auto
    ultimately show ?thesis using f1 f2 unfolding quiet_def a by metis
  qed
qed

lemma quiet_dc_ready_wait: "quiet w (dc_ready_wait env w)"
  by (simp add: quiet_def dc_ready_wait_def)

lemma quiet_dc_send: "quiet w (dc_send env ch t att w)"
  by (auto simp: quiet_def dc_send_eq record_call_def failure_of_def split: sum.splits)

lemma quiet_dc_fetchMessage: "quiet w (dc_fetchMessage env ch mid w)"
  by (auto simp: quiet_def dc_fetchMessage_eq record_call_def unit_result_def split: option.splits)

lemma quiet_dc_edit: "quiet w (dc_edit env ch mid t w)"
  by (auto simp: quiet_def dc_edit_eq record_call_def unit_result_def split: option.splits)

lemma quiet_getCorresponding: "quiet w (getCorresponding mid w)"
  by (simp add: quiet_def getCorresponding_def split: option.splits)

lemma quiet_resolve_extension: "quiet w (resolve_extension rx path w)"
  by (simp add: resolve_extension_def quiet_ok quiet_throw split: option.splits)

lemma quiet_promise_all_getFile:
  "quiet w (promise_all (tg_getFile env fid) (tg_getFileLink env fid) w)"
  by (auto simp: quiet_def promise_all_def tg_getFile_eq tg_getFileLink_eq record_call_def
      failure_of_def split: sum.splits)

lemma resolve_extension_world: "snd (resolve_extension rx path w) = w"
  by (simp add: resolve_extension_def ok_def throw_def split: option.splits)

lemma quiet_abandon: "quiet w (Inl err, orphan fileStream w)"
  by (simp add: quiet_def orphan_def split: option.splits)

lemma quiet_dc_send_file: "quiet w (dc_send_file env ch t fileStream file w)"
proof (cases "snd fileStream")
  case None
  with quiet_dc_send [of w env ch t "Some (fst fileStream, file)"] show ?thesis
    by (simp add: dc_send_file_def)
next
  case (Some err)
  then show ?thesis
    by (simp add: dc_send_file_def quiet_def record_call_def)
qed

lemma quiet_pass_on: "quiet w (pass_on env b t fname rx path link w)"
proof (cases "resolve_extension rx path w")
  case (Pair r w')
  with resolve_extension_world [of rx path w] have w': "w' = w" by simp
  show ?thesis
  proof (cases r)
    case (Inl err)
    with Pair w' show ?thesis by (simp add: pass_on_def Let_def quiet_abandon)
  next
    case (Inr extension)
    show ?thesis
    proof (cases "channels_get env (channelId b)")
      case None
      with Pair w' Inr show ?thesis by (simp add: pass_on_def Let_def quiet_abandon)
    next
      case (Some ch)
      have "quiet w (await (dc_send_file env ch t (request env link w) (js_undefined fname @ extension))
          (\<lambda>_. ok ()) w)"
        by (intro quiet_await quiet_dc_send_file quiet_ok)
      with Pair w' Inr Some show ?thesis by (simp add: pass_on_def Let_def)
    qed
  qed
qed

lemma quiet_sendFile: "quiet w (sendFile env b m fid fname cap rx w)"
  unfolding sendFile_def Let_def
  by (intro quiet_await quiet_dc_ready_wait quiet_promise_all_getFile)
     (auto intro!: quiet_pass_on)

lemma quiet_send_notice: "quiet w (send_notice env b t w)"
  unfolding send_notice_def
  by (intro quiet_await quiet_dc_ready_wait)
     (auto intro!: quiet_dc_send quiet_throw split: option.splits)

lemma contained_iff:
  "contained b w out \<longleftrightarrow>
     fst out = Inr () \<and> me (snd out) = me w \<and>
     (\<exists>new lg. calls (snd out) = calls w @ new \<and> logged (snd out) = logged w @ lg \<and>
        ((\<exists>x\<in>set new. snd x \<noteq> None) \<longrightarrow> lg \<noteq> []) \<and>
        (\<forall>l\<in>set lg. prefix (''['' @ name b @ '']'') (fst l)))"
proof
  assume c: "contained b w out"
  then obtain new lg where "calls (snd out) = calls w @ new" "logged (snd out) = logged w @ lg"
    by (auto simp: contained_def prefix_def)
  with c show "fst out = Inr () \<and> me (snd out) = me w \<and>
     (\<exists>new lg. calls (snd out) = calls w @ new \<and> logged (snd out) = logged w @ lg \<and>
        ((\<exists>x\<in>set new. snd x \<noteq> None) \<longrightarrow> lg \<noteq> []) \<and>
        (\<forall>l\<in>set lg. prefix (''['' @ name b @ '']'') (fst l)))"
    by (auto simp: contained_def)
next
  assume "fst out = Inr () \<and> me (snd out) = me w \<and>
     (\<exists>new lg. calls (snd out) = calls w @ new \<and> logged (snd out) = logged w @ lg \<and>
        ((\<exists>x\<in>set new. snd x \<noteq> None) \<longrightarrow> lg \<noteq> []) \<and>
        (\<forall>l\<in>set lg. prefix (''['' @ name b @ '']'') (fst l)))"
  then show "contained b w out"
    by (auto simp: contained_def)
qed

lemma bracket_prefix [simp]: "prefix (CHR ''['' # name b @ '']'') (bracket b rest)"
  by (simp add: bracket_def)

lemma contained_try_catch:
  assumes "quiet w (body w)"
  shows "contained b w (try_catch body (log_failure b what) w)"
    and "messageMap (snd (try_catch body (log_failure b what) w)) = messageMap w"
proof -
  obtain r w1 where run: "body w = (r, w1)" by (cases "body w") auto
  with assms obtain new where n: "calls w1 = calls w @ new"
      "(\<exists>x\<in>set new. snd x \<noteq> None) \<longrightarrow> (\<exists>err. r = Inl err)"
    and f: "logged w1 = logged w" "messageMap w1 = messageMap w" "me w1 = me w"
    by (auto simp: quiet_def)
  show "messageMap (snd (try_catch body (log_failure b what) w)) = messageMap w"
    using run f by (cases r) (simp_all add: try_catch_def log_failure_def logger_error_def)
  show "contained b w (try_catch body (log_failure b what) w)"
  proof (cases r)
    case (Inl err)
    with run have "try_catch body (log_failure b what) w =
        (Inr (), w1\<lparr>logged := logged w1 @ [(bracket b what, [LogErr err])]\<rparr>)"
      by (simp add: try_catch_def log_failure_def logger_error_def)
    with n f show ?thesis
      unfolding contained_iff
      by (intro conjI exI [of _ new] exI [of _ "[(bracket b what, [LogErr err])]"])
         (simp_all add: bracket_prefix)
  next
    case (Inr x)
    with run have "try_catch body (log_failure b what) w = (Inr (), w1)"
      by (simp add: try_catch_def)
    with n f Inr show ?thesis
      unfolding contained_iff
      by (intro conjI exI [of _ new] exI [of _ "[]"]) auto
  qed
qed

lemma contained_refl: "contained b w (Inr (), w)"
  by (simp add: contained_iff)

lemma contained_trans:
  assumes 1: "contained b w (r1, w1)" and 2: "contained b w1 (r2, w2)"
  shows "contained b w (r2, w2)"
proof -
  from 1 obtain new1 lg1 where a: "calls w1 = calls w @ new1" "logged w1 = logged w @ lg1"
      "(\<exists>x\<in>set new1. snd x \<noteq> None) \<longrightarrow> lg1 \<noteq> []"
      "\<forall>l\<in>set lg1. prefix (''['' @ name b @ '']'') (fst l)" "me w1 = me w"
    by (auto simp: contained_iff)
  from 2 obtain new2 lg2 where b: "calls w2 = calls w1 @ new2" "logged w2 = logged w1 @ lg2"
      "(\<exists>x\<in>set new2. snd x \<noteq> None) \<longrightarrow> lg2 \<noteq> []"
      "\<forall>l\<in>set lg2. prefix (''['' @ name b @ '']'') (fst l)" "me w2 = me w1" "r2 = Inr ()"
    by (auto simp: contained_iff)
  have "calls w2 = calls w @ (new1 @ new2)" "logged w2 = logged w @ (lg1 @ lg2)"
    using a b by simp_all
  moreover have "(\<exists>x\<in>set (new1 @ new2). snd x \<noteq> None) \<longrightarrow> lg1 @ lg2 \<noteq> []"
    using a(3) b(3) by auto
  moreover have "\<forall>l\<in>set (lg1 @ lg2). prefix (''['' @ name b @ '']'') (fst l)"
    using a(4) b(4) by auto
  ultimately show ?thesis
    unfolding contained_iff using a(5) b(5,6) by (intro conjI exI [of _ "new1 @ new2"] exI [of _ "lg1 @ lg2"]) simp_all
qed

lemma contained_forEach:
  assumes "\<And>x w. contained b w (f x w)"
  shows "contained b w (forEach f xs w)"
proof (induction xs arbitrary: w)
  case Nil
  show ?case by (simp add: contained_refl)
next
  case (Cons x xs)
  have 1: "contained b w (fst (f x w), snd (f x w))" using assms [of w x] by simp
  have 2: "contained b (snd (f x w)) (fst (forEach f xs (snd (f x w))), snd (forEach f xs (snd (f x w))))"
    using Cons.IH [of "snd (f x w)"] by simp
  from contained_trans [OF 1 2] show ?case by simp
qed

lemma contained_text_handler: "contained b w (text_handler env m b w)"
proof -
  obtain r w' where run: "text_handler env m b w = (r, w')"
    by (cases "text_handler env m b w") auto
  from text_handler_effect [OF run] obtain new lg where
    e: "r = Inr ()" "me w' = me w" "calls w' = calls w @ new" "logged w' = logged w @ lg"
      "(\<exists>x\<in>set new. snd x \<noteq> None) \<longrightarrow> lg \<noteq> []"
      "lg = [] \<or> (\<exists>err. lg = text_log b m err)"
    by blast
  from e(6) have "\<forall>l\<in>set lg. prefix (''['' @ name b @ '']'') (fst l)"
    by (auto simp: text_log_def bracket_prefix)
  with e show ?thesis
    unfolding contained_iff run by (intro conjI exI [of _ new] exI [of _ lg]) simp_all
qed

text \<open>
  The failures of the calls: whatever the network does, a handler called with the payload
  of its update type ends normally, and logs under the bridge's name when a call failed.
\<close>

lemma contained_handler_of:
  "payload_present ty m \<Longrightarrow> contained b w (handler_of env ty m b w)"
proof (cases ty)
  case On_text
  then show ?thesis by (simp add: contained_text_handler)
next
  case On_photo
  show ?thesis unfolding On_photo handler_of.simps photo_handler_def
    by (rule contained_try_catch) (simp add: quiet_throw quiet_sendFile split: option.splits)
next
  case On_sticker
  show ?thesis unfolding On_sticker handler_of.simps sticker_handler_def
    by (rule contained_try_catch) (simp add: quiet_throw quiet_sendFile split: option.splits)
next
  case On_document
  assume "payload_present ty m"
  with On_document obtain d where d: "document m = Some d" by auto
  show ?thesis unfolding On_document handler_of.simps document_handler_def
    by (simp add: d Let_def contained_try_catch quiet_sendFile)
next
  case On_voice
  show ?thesis unfolding On_voice handler_of.simps voice_handler_def
    by (rule contained_try_catch) (simp add: quiet_throw quiet_sendFile split: option.splits)
next
  case On_audio
  show ?thesis unfolding On_audio handler_of.simps audio_handler_def
    by (rule contained_try_catch) (simp add: quiet_throw quiet_sendFile split: option.splits)
next
  case On_video
  show ?thesis unfolding On_video handler_of.simps video_handler_def
    by (rule contained_try_catch) (simp add: quiet_throw quiet_sendFile split: option.splits)
next
  case On_new_chat_members
  assume "payload_present ty m"
  with On_new_chat_members obtain us where us: "new_chat_members m = Some us" by auto
  have "contained b w (forEach (notify_joined env b) us w)"
    by (rule contained_forEach) (simp add: notify_joined_def contained_try_catch quiet_send_notice)
  then show ?thesis unfolding On_new_chat_members handler_of.simps new_chat_members_handler_def
    by (simp add: us ok_def contained_refl)
next
  case On_left_chat_member
  assume "payload_present ty m"
  with On_left_chat_member obtain u where u: "left_chat_member m = Some u" by auto
  show ?thesis unfolding On_left_chat_member handler_of.simps left_chat_member_handler_def
    by (simp add: u ok_def contained_refl contained_try_catch quiet_send_notice)
next
  case On_edited_message
  show ?thesis unfolding On_edited_message handler_of.simps edited_message_handler_def
    by (rule contained_try_catch)
       (auto intro!: quiet_await quiet_dc_ready_wait quiet_getCorresponding quiet_throw
          quiet_dc_fetchMessage quiet_dc_edit simp: Let_def split: option.splits)
qed

subsection \<open>A download nobody listens to\<close>

text \<open>
  Every call a handler makes is inside its \<^verbatim>\<open>try\<close>; the download that
  \<^verbatim>\<open>makeFileSender\<close> starts is not a call the handler waits for. When the relay ends
  between the start of the download and the send, with a missing channel, the error of
  the download reaches no handler.
\<close>

lemma orphaned_download:
  assumes "dc_ready env = None"
    and "tg_getFile_result env (calls w) (TgGetFile fid) = Inr path"
    and "tg_getFileLink_result env (calls w @ [(TgGetFile fid, None)]) (TgGetFileLink fid) = Inr link"
    and "rx \<longrightarrow> path \<noteq> None"
    and "\<not> dc_channels env (channelId b)"
    and "download_result env (calls w @ [(TgGetFile fid, None), (TgGetFileLink fid, None)]) link =
      Some err"
  shows "sendFile env b m fid fname cap rx w =
     (Inl TypeError,
      w\<lparr>calls := calls w @ [(TgGetFile fid, None), (TgGetFileLink fid, None)],
        uncaught := uncaught w @ [err]\<rparr>)"
proof -
  let ?w = "w\<lparr>calls := calls w @ [(TgGetFile fid, None), (TgGetFileLink fid, None)]\<rparr>"
  from assms have start: "sendFile env b m fid fname cap rx w =
      pass_on env b (textToSend (messageConverter env m b) cap) fname rx path link ?w"
    by (simp add: sendFile_def Let_def await_def dc_ready_wait_def unit_result_def promise_all_def
        tg_getFile_eq tg_getFileLink_eq record_call_def failure_of_def)
  from assms(4) have ext: "resolve_extension rx path ?w =
      (Inr (if rx then ''.'' @ last (split_dot (the path)) else []), ?w)"
    by (auto simp: resolve_extension_def ok_def)
  from assms(5,6) ext show ?thesis unfolding start
    by (simp add: pass_on_def Let_def request_def channels_get_def orphan_def)
qed

lemma ex_chunks_hello: "chunks_of 2000 ''hello'' = [''hello'']"
  by (simp add: chunks_of_step chunks_of_Nil)

text \<open>
  C5. A photo arrives on a bridge whose channel Discord does not know, while the download
  of the file breaks; a text message arrives next, on another bridge. The photo handler
  catches the missing channel and logs it with the bridge's name. The error of the
  download is not caught: it ends the run, and the text message, which is relayed when it
  arrives alone, is not handled.
\<close>

theorem orphaned_download_escapes:
  "run_updates ex_orphan [(On_text, ex_ctx ex_hello)] ex_world =
     (Inr (), ex_world\<lparr>calls := [(DcSend ''412'' ''hello'' None, None)],
        messageMap := [7 \<mapsto> ''9'']\<rparr>) \<and>
   photo_handler ex_orphan (ex_photo\<lparr>chat_id := - 200\<rparr>) ex_second ex_world =
     (Inr (), ex_world\<lparr>calls := [(TgGetFile ''large'', None), (TgGetFileLink ''large'', None)],
        logged := [(''[Second bridge] Could not send photo'', [LogErr TypeError])],
        uncaught := [ApiError ''ECONNRESET'']\<rparr>) \<and>
   run_updates ex_orphan
       [(On_photo, ex_ctx (ex_photo\<lparr>chat_id := - 200\<rparr>)), (On_text, ex_ctx ex_hello)] ex_world =
     (Inl (ApiError ''ECONNRESET''),
      ex_world\<lparr>calls := [(TgGetFile ''large'', None), (TgGetFileLink ''large'', None)],
        logged := [(''[Second bridge] Could not send photo'', [LogErr TypeError])],
        uncaught := [ApiError ''ECONNRESET'']\<rparr>)"
proof -
  have w: "calls ex_world = []" "uncaught ex_world = []" "logged ex_world = []"
    by (simp_all add: ex_world_def)
  have t1: "ctx_canonical (ex_ctx ex_hello) = Some ex_hello"
    by (simp add: ctx_canonical_def ex_ctx_def)
  have t3: "fromTelegramChatId ex_orphan (chat_id ex_hello) = Some ex_bridge"
    by (simp add: ex_orphan_def ex_two_def ex_hello_def ex_message_def)
  have t: "text_handler ex_orphan ex_hello ex_bridge ex_world =
     (Inr (), ex_world\<lparr>calls := [(DcSend ''412'' ''hello'' None, None)],
        messageMap := [7 \<mapsto> ''9'']\<rparr>)"
    by (simp add: text_handler_unfold ex_orphan_def ex_two_def ex_env_def ex_hello_def
        ex_message_def js_undefined_def ex_chunks_hello channels_get_def ex_bridge_def dc_send_eq
        record_call_def failure_of_def ex_world_def)
  from bridged_run [OF t1 ex_not_chatinfo t3, of "handler_of ex_orphan On_text"] t
  have first: "run_updates ex_orphan [(On_text, ex_ctx ex_hello)] ex_world =
     (Inr (), ex_world\<lparr>calls := [(DcSend ''412'' ''hello'' None, None)],
        messageMap := [7 \<mapsto> ''9'']\<rparr>)"
    by (simp add: on_update_def ex_bridge_def w)
  have p1: "ctx_canonical (ex_ctx (ex_photo\<lparr>chat_id := - 200\<rparr>)) = Some (ex_photo\<lparr>chat_id := - 200\<rparr>)"
    by (simp add: ctx_canonical_def ex_ctx_def)
  have p2: "\<not> is_chatinfo ex_world (ex_photo\<lparr>chat_id := - 200\<rparr>)"
    by (simp add: is_chatinfo_def ex_photo_def ex_message_def)
  have p3: "fromTelegramChatId ex_orphan (chat_id (ex_photo\<lparr>chat_id := - 200\<rparr>)) = Some ex_second"
    by (simp add: ex_orphan_def ex_two_def)
  have s: "sendFile ex_orphan ex_second (ex_photo\<lparr>chat_id := - 200\<rparr>) ''large'' (Some ''photo.jpg'')
        (Some ''look'') False ex_world =
     (Inl TypeError,
      ex_world\<lparr>calls := [(TgGetFile ''large'', None), (TgGetFileLink ''large'', None)],
        uncaught := [ApiError ''ECONNRESET'']\<rparr>)"
    using orphaned_download [of ex_orphan ex_world "''large''" "Some ''music/file_1.ogg''"
        "''https://api.telegram.org/file/1''" False ex_second "ApiError ''ECONNRESET''"
        "ex_photo\<lparr>chat_id := - 200\<rparr>" "Some ''photo.jpg''" "Some ''look''"]
    by (simp add: ex_orphan_def ex_two_def ex_env_def ex_second_def ex_bridge_def w)
  have p: "photo_handler ex_orphan (ex_photo\<lparr>chat_id := - 200\<rparr>) ex_second ex_world =
     (Inr (), ex_world\<lparr>calls := [(TgGetFile ''large'', None), (TgGetFileLink ''large'', None)],
        logged := [(''[Second bridge] Could not send photo'', [LogErr TypeError])],
        uncaught := [ApiError ''ECONNRESET'']\<rparr>)"
    using s
    by (simp add: photo_handler_def ex_photo_def try_catch_def log_failure_def logger_error_def
        bracket_def ex_second_def ex_bridge_def w)
  from bridged_run [OF p1 p2 p3, of "handler_of ex_orphan On_photo"] p
  have second: "run_updates ex_orphan
       [(On_photo, ex_ctx (ex_photo\<lparr>chat_id := - 200\<rparr>)), (On_text, ex_ctx ex_hello)] ex_world =
     (Inl (ApiError ''ECONNRESET''),
      ex_world\<lparr>calls := [(TgGetFile ''large'', None), (TgGetFileLink ''large'', None)],
        logged := [(''[Second bridge] Could not send photo'', [LogErr TypeError])],
        uncaught := [ApiError ''ECONNRESET'']\<rparr>)"
    by (simp add: on_update_def ex_second_def ex_bridge_def)
  from first p second show ?thesis by simp
qed

section \<open>Who writes the message map\<close>














end
